theory Spec2Isabelle
  imports Main
begin

section \<open>Data model\<close>

text \<open>
  The handlers of \<^verbatim>\<open>project/api/routes\<close> work on the tables of the relational store.
  A table is the list of its rows, in the order the database returns them. Primary keys
  and foreign keys are database integers. The classes themselves are declared in
  \<^verbatim>\<open>project.models\<close>, which is not part of the source; the columns below are the ones
  the handlers read and write.
\<close>

text \<open>\<^verbatim>\<open>IndicatorType\<close>, \<^verbatim>\<open>IndicatorConfidence\<close>, \<^verbatim>\<open>IndicatorImpact\<close>, \<^verbatim>\<open>IndicatorStatus\<close>,
  \<^verbatim>\<open>Tag\<close> and \<^verbatim>\<open>IntelSource\<close>: an id and a value.\<close>

record taxonomy =
  tax_id :: int
  tax_value :: string

record campaign =
  campaign_id :: int
  campaign_name :: string

record intel_reference =
  reference_id :: int
  reference :: string
  intel_source_id :: int

record user =
  uid :: int
  username :: string
  active :: bool

text \<open>
  An indicator. The many-to-one relationships are held by the id of the related row
  (\<open>None\<close> is Python's \<^verbatim>\<open>None\<close>, SQL's NULL). The many-to-many collections are Python
  lists of related rows, again by id; an element can be \<^verbatim>\<open>None\<close> in memory, because
  \<^verbatim>\<open>update_indicator\<close> appends the result of a lookup without testing it.
\<close>

record indicator =
  iid :: int
  type_id :: int
  user_id :: int
  ivalue :: string
  campaigns :: "int option list"
  case_sensitive :: "bool option"
  confidence_id :: "int option"
  impact_id :: "int option"
  references :: "int option list"
  status_id :: "int option"
  substring :: "bool option"
  tags :: "int option list"
  created_time :: int
  modified_time :: int

text \<open>
  The store. \<open>indicator_fks\<close> is modelled from the spec (``a foreign-key violation during
  commit is caught''): the ids of the indicators that rows of tables declared outside this
  source hold a foreign key to. The association rows of an indicator's own collections are
  part of the indicator and go with it.
\<close>

record store =
  t_campaign :: "campaign list"
  t_indicator :: "indicator list"
  t_indicator_confidence :: "taxonomy list"
  t_indicator_impact :: "taxonomy list"
  t_indicator_status :: "taxonomy list"
  t_indicator_type :: "taxonomy list"
  t_intel_reference :: "intel_reference list"
  t_intel_source :: "taxonomy list"
  t_tag :: "taxonomy list"
  t_user :: "user list"
  indicator_fks :: "int list"

text \<open>Exceptions of the ORM that reach the handlers.\<close>

datatype exn = IntegrityError | FlushError

record collection =
  items :: "indicator list"
  total :: nat

text \<open>
  What a handler gives back: \<^verbatim>\<open>error_response(code, msg)\<close>, a JSON rendering of a row
  with its status code, the collection envelope, the empty body of a delete, or an
  exception that leaves the handler uncaught (the framework answers 500).
\<close>

datatype response =
    ErrorResponse int string
  | TaxonomyJson int taxonomy
  | IndicatorJson int indicator
  | CollectionJson int collection
  | NoContent int
  | Raised exn

fun status_code :: "response \<Rightarrow> int" where
  "status_code (ErrorResponse c m) = c"
| "status_code (TaxonomyJson c r) = c"
| "status_code (IndicatorJson c i) = c"
| "status_code (CollectionJson c e) = c"
| "status_code (NoContent c) = c"
| "status_code (Raised e) = 500"

text \<open>Modelled from the spec: \<^verbatim>\<open>project.api.errors.error_response\<close> is not in the source;
  errors are ``surfaced directly to the caller as structured JSON \<^verbatim>\<open>{"msg": ...}\<close>'' with
  the given status.\<close>

definition error_response :: "int \<Rightarrow> string \<Rightarrow> response" where
  "error_response code msg = ErrorResponse code msg"

section \<open>Queries\<close>

text \<open>\<^verbatim>\<open>Model.query.filter_by(value=v).first()\<close>\<close>

definition filter_by_value :: "taxonomy list \<Rightarrow> string \<Rightarrow> taxonomy option" where
  "filter_by_value t v = find (\<lambda>r. tax_value r = v) t"

text \<open>\<^verbatim>\<open>Model.query.get(id)\<close>\<close>

definition get_taxonomy :: "taxonomy list \<Rightarrow> int \<Rightarrow> taxonomy option" where
  "get_taxonomy t i = find (\<lambda>r. tax_id r = i) t"

definition get_indicator :: "indicator list \<Rightarrow> int \<Rightarrow> indicator option" where
  "get_indicator t i = find (\<lambda>r. iid r = i) t"

text \<open>\<^verbatim>\<open>Model.query.order_by(Model.id).limit(1).first()\<close>\<close>

fun first_by_id :: "taxonomy list \<Rightarrow> taxonomy option" where
  "first_by_id [] = None"
| "first_by_id (r # rs) =
     (case first_by_id rs of
        None \<Rightarrow> Some r
      | Some m \<Rightarrow> if tax_id r \<le> tax_id m then Some r else Some m)"

text \<open>The id the database gives a new row: one more than the largest in the table.\<close>

definition next_id :: "int list \<Rightarrow> int" where
  "next_id ids = fold max ids 0 + 1"

section \<open>Indicator status: \<^verbatim>\<open>routes/indicator_status.py\<close>\<close>

definition create_indicator_status :: "store \<Rightarrow> string \<Rightarrow> response \<times> store" where
  "create_indicator_status s v =
     (case filter_by_value (t_indicator_status s) v of
        Some existing \<Rightarrow> (error_response 409 ''Indicator status already exists'', s)
      | None \<Rightarrow>
          (let indicator_status =
                 \<lparr>tax_id = next_id (map tax_id (t_indicator_status s)), tax_value = v\<rparr>
           in (TaxonomyJson 201 indicator_status,
               s\<lparr>t_indicator_status := t_indicator_status s @ [indicator_status]\<rparr>)))"

definition read_indicator_status :: "store \<Rightarrow> int \<Rightarrow> response" where
  "read_indicator_status s indicator_status_id =
     (case get_taxonomy (t_indicator_status s) indicator_status_id of
        None \<Rightarrow> error_response 404 ''Indicator status ID not found''
      | Some indicator_status \<Rightarrow> TaxonomyJson 200 indicator_status)"

definition update_indicator_status :: "store \<Rightarrow> int \<Rightarrow> string \<Rightarrow> response \<times> store" where
  "update_indicator_status s indicator_status_id v =
     (case get_taxonomy (t_indicator_status s) indicator_status_id of
        None \<Rightarrow> (error_response 404 ''Indicator status ID not found'', s)
      | Some indicator_status \<Rightarrow>
          (case filter_by_value (t_indicator_status s) v of
             Some existing \<Rightarrow> (error_response 409 ''Indicator status already exists'', s)
           | None \<Rightarrow>
               (let indicator_status' = indicator_status\<lparr>tax_value := v\<rparr>
                in (TaxonomyJson 200 indicator_status',
                    s\<lparr>t_indicator_status :=
                        map (\<lambda>r. if tax_id r = indicator_status_id then indicator_status' else r)
                          (t_indicator_status s)\<rparr>))))"

text \<open>
  Deleting a status and committing. The database refuses the delete while a row of
  \<^verbatim>\<open>indicator\<close> still holds the status in its \<^verbatim>\<open>_status_id\<close> column.
\<close>

definition status_referenced :: "store \<Rightarrow> int \<Rightarrow> bool" where
  "status_referenced s i = list_ex (\<lambda>ind. status_id ind = Some i) (t_indicator s)"

definition commit_delete_status :: "store \<Rightarrow> int \<Rightarrow> exn + store" where
  "commit_delete_status s i =
     (if status_referenced s i then Inl IntegrityError
      else Inr (s\<lparr>t_indicator_status := filter (\<lambda>r. tax_id r \<noteq> i) (t_indicator_status s)\<rparr>))"

definition delete_indicator_status :: "store \<Rightarrow> int \<Rightarrow> response \<times> store" where
  "delete_indicator_status s indicator_status_id =
     (case get_taxonomy (t_indicator_status s) indicator_status_id of
        None \<Rightarrow> (error_response 404 ''Indicator status ID not found'', s)
      | Some indicator_status \<Rightarrow>
          (case commit_delete_status s indicator_status_id of
             Inl IntegrityError \<Rightarrow>
               (error_response 409
                  ''Unable to delete indicator status due to foreign key constraints'', s)
           | Inl e \<Rightarrow> (Raised e, s)
           | Inr s' \<Rightarrow> (NoContent 204, s')))"

section \<open>What the indicator handlers take from outside\<close>

text \<open>
  Library and helper functions that the handlers call and that are not in the source are
  parameters of the model:
  \<^item> \<open>parse\<close> is \<^verbatim>\<open>dateutil.parser.parse\<close>; the flag is \<^verbatim>\<open>ignoretz\<close>, the result a point in
    time, counted in microseconds from \<^verbatim>\<open>datetime.min\<close>, and \<open>None\<close> where the library
    raises \<^verbatim>\<open>ValueError\<close> or \<^verbatim>\<open>OverflowError\<close>;
  \<^item> \<open>parse_boolean\<close> is \<^verbatim>\<open>project.api.helpers.parse_boolean\<close>, called on a JSON boolean
    or on a query string, with or without \<^verbatim>\<open>default=\<close>;
  \<^item> \<open>like\<close> is the database's \<^verbatim>\<open>LIKE\<close> on a column value and a pattern;
  \<^item> \<open>now\<close> is the clock reading the model layer stamps a new row with.
\<close>

datatype pyval = PyBool bool | PyStr string

datatype default_arg = Omitted | Given "bool option"

record env =
  parse :: "string \<Rightarrow> bool \<Rightarrow> int option"
  parse_boolean :: "pyval \<Rightarrow> default_arg \<Rightarrow> bool option"
  like :: "string \<Rightarrow> string \<Rightarrow> bool"
  now :: int

text \<open>\<^verbatim>\<open>datetime.date.min\<close> and \<^verbatim>\<open>datetime.date.max\<close> as the database compares them with a
  timestamp column: midnight of 0001-01-01 and of 9999-12-31, the latter 3652058 days
  after the former.\<close>

definition date_min :: int where
  "date_min = 0"

definition date_max :: int where
  "date_max = 3652058 * 86400000000"

text \<open>The request bodies, after \<^verbatim>\<open>validate_schema\<close>: a key that is absent is \<open>None\<close>.\<close>

record create_body =
  cb_campaigns :: "string list option"
  cb_case_sensitive :: "bool option"
  cb_confidence :: "string option"
  cb_impact :: "string option"
  cb_references :: "string list option"
  cb_status :: "string option"
  cb_substring :: "bool option"
  cb_tags :: "string list option"
  cb_username :: string
  cb_type :: string
  cb_value :: string

record update_body =
  ub_campaigns :: "string list option"
  ub_case_sensitive :: "bool option"
  ub_confidence :: "string option"
  ub_impact :: "string option"
  ub_references :: "string list option"
  ub_status :: "string option"
  ub_substring :: "bool option"
  ub_tags :: "string list option"
  ub_username :: "string option"

text \<open>\<^verbatim>\<open>request.args\<close> of \<^verbatim>\<open>GET /indicators\<close>. \<open>page\<close> and \<open>per_page\<close> are what the
  pagination helper makes of its arguments.\<close>

record query_args =
  qa_case_sensitive :: "string option"
  qa_created_after :: "string option"
  qa_created_before :: "string option"
  qa_confidence :: "string option"
  qa_impact :: "string option"
  qa_modified_after :: "string option"
  qa_modified_before :: "string option"
  qa_sources :: "string option"
  qa_status :: "string option"
  qa_substring :: "string option"
  qa_tags :: "string option"
  qa_type :: "string option"
  qa_value :: "string option"
  page :: nat
  per_page :: nat

text \<open>\<^verbatim>\<open>Campaign.query.filter_by(name=value).first()\<close> and its siblings.\<close>

definition find_campaign :: "store \<Rightarrow> string \<Rightarrow> campaign option" where
  "find_campaign s v = find (\<lambda>c. campaign_name c = v) (t_campaign s)"

definition find_reference :: "store \<Rightarrow> string \<Rightarrow> intel_reference option" where
  "find_reference s v = find (\<lambda>r. reference r = v) (t_intel_reference s)"

definition find_user :: "store \<Rightarrow> string \<Rightarrow> user option" where
  "find_user s v = find (\<lambda>u. username u = v) (t_user s)"

text \<open>A handler runs its checks in order; the first \<^verbatim>\<open>return\<close> ends it.\<close>

definition and_then :: "response + 'a \<Rightarrow> ('a \<Rightarrow> response + 'b) \<Rightarrow> response + 'b" where
  "and_then m f = (case m of Inl r \<Rightarrow> Inl r | Inr x \<Rightarrow> f x)"

text \<open>
  Flushing an object to the database. The ORM refuses a collection that holds \<^verbatim>\<open>None\<close>
  with \<^verbatim>\<open>FlushError\<close>, which no handler catches. The session of \<^verbatim>\<open>db = SQLAlchemy()\<close>
  flushes on commit and, for an object it already tracks, before each query.
\<close>

definition has_none :: "indicator \<Rightarrow> bool" where
  "has_none ind \<longleftrightarrow>
     None \<in> set (campaigns ind) \<or> None \<in> set (references ind) \<or> None \<in> set (tags ind)"

definition flush :: "indicator \<Rightarrow> response + indicator" where
  "flush ind = (if has_none ind then Inl (Raised FlushError) else Inr ind)"

section \<open>Indicators: \<^verbatim>\<open>routes/indicator.py\<close>\<close>

subsection \<open>Create\<close>

text \<open>The object \<^verbatim>\<open>Indicator(type=_type, user=user, value=data['value'])\<close>. The database
  assigns the id and the timestamps when the row is inserted; nothing reads them before,
  so the model fixes them here.\<close>

definition new_indicator :: "env \<Rightarrow> store \<Rightarrow> taxonomy \<Rightarrow> user \<Rightarrow> string \<Rightarrow> indicator" where
  "new_indicator E s t u v =
     \<lparr>iid = next_id (map iid (t_indicator s)), type_id = tax_id t, user_id = uid u,
      ivalue = v, campaigns = [], case_sensitive = None, confidence_id = None,
      impact_id = None, references = [], status_id = None, substring = None, tags = [],
      created_time = now E, modified_time = now E\<rparr>"

fun append_campaigns :: "store \<Rightarrow> string list \<Rightarrow> indicator \<Rightarrow> response + indicator" where
  "append_campaigns s [] ind = Inr ind"
| "append_campaigns s (v # vs) ind =
     (case find_campaign s v of
        None \<Rightarrow> Inl (error_response 404 (''Campaign not found: '' @ v))
      | Some c \<Rightarrow>
          append_campaigns s vs (ind\<lparr>campaigns := campaigns ind @ [Some (campaign_id c)]\<rparr>))"

fun append_references :: "store \<Rightarrow> string list \<Rightarrow> indicator \<Rightarrow> response + indicator" where
  "append_references s [] ind = Inr ind"
| "append_references s (v # vs) ind =
     (case find_reference s v of
        None \<Rightarrow> Inl (error_response 404 (''Reference not found: '' @ v))
      | Some r \<Rightarrow>
          append_references s vs (ind\<lparr>references := references ind @ [Some (reference_id r)]\<rparr>))"

fun append_tags :: "store \<Rightarrow> string list \<Rightarrow> indicator \<Rightarrow> response + indicator" where
  "append_tags s [] ind = Inr ind"
| "append_tags s (v # vs) ind =
     (case filter_by_value (t_tag s) v of
        None \<Rightarrow> Inl (error_response 404 (''Tag not found: '' @ v))
      | Some t \<Rightarrow> append_tags s vs (ind\<lparr>tags := tags ind @ [Some (tax_id t)]\<rparr>))"

definition create_campaigns :: "store \<Rightarrow> create_body \<Rightarrow> indicator \<Rightarrow> response + indicator" where
  "create_campaigns s d ind =
     (case cb_campaigns d of None \<Rightarrow> Inr ind | Some vs \<Rightarrow> append_campaigns s vs ind)"

definition create_case_sensitive :: "env \<Rightarrow> create_body \<Rightarrow> indicator \<Rightarrow> response + indicator" where
  "create_case_sensitive E d ind =
     Inr (ind\<lparr>case_sensitive :=
            (case cb_case_sensitive d of
               Some b \<Rightarrow> parse_boolean E (PyBool b) Omitted
             | None \<Rightarrow> Some False)\<rparr>)"

definition create_confidence :: "store \<Rightarrow> create_body \<Rightarrow> indicator \<Rightarrow> response + indicator" where
  "create_confidence s d ind =
     (case cb_confidence d of
        None \<Rightarrow>
          Inr (ind\<lparr>confidence_id := map_option tax_id (first_by_id (t_indicator_confidence s))\<rparr>)
      | Some v \<Rightarrow>
          (case filter_by_value (t_indicator_confidence s) v of
             None \<Rightarrow> Inl (error_response 404 (''Indicator confidence not found: '' @ v))
           | Some c \<Rightarrow> Inr (ind\<lparr>confidence_id := Some (tax_id c)\<rparr>)))"

definition create_impact :: "store \<Rightarrow> create_body \<Rightarrow> indicator \<Rightarrow> response + indicator" where
  "create_impact s d ind =
     (case cb_impact d of
        None \<Rightarrow> Inr (ind\<lparr>impact_id := map_option tax_id (first_by_id (t_indicator_impact s))\<rparr>)
      | Some v \<Rightarrow>
          (case filter_by_value (t_indicator_impact s) v of
             None \<Rightarrow> Inl (error_response 404 (''Indicator impact not found: '' @ v))
           | Some c \<Rightarrow> Inr (ind\<lparr>impact_id := Some (tax_id c)\<rparr>)))"

definition create_references :: "store \<Rightarrow> create_body \<Rightarrow> indicator \<Rightarrow> response + indicator" where
  "create_references s d ind =
     (case cb_references d of None \<Rightarrow> Inr ind | Some vs \<Rightarrow> append_references s vs ind)"

definition create_status :: "store \<Rightarrow> create_body \<Rightarrow> indicator \<Rightarrow> response + indicator" where
  "create_status s d ind =
     (case cb_status d of
        None \<Rightarrow> Inr (ind\<lparr>status_id := map_option tax_id (first_by_id (t_indicator_status s))\<rparr>)
      | Some v \<Rightarrow>
          (case filter_by_value (t_indicator_status s) v of
             None \<Rightarrow> Inl (error_response 404 (''Indicator status not found: '' @ v))
           | Some c \<Rightarrow> Inr (ind\<lparr>status_id := Some (tax_id c)\<rparr>)))"

definition create_substring :: "env \<Rightarrow> create_body \<Rightarrow> indicator \<Rightarrow> response + indicator" where
  "create_substring E d ind =
     Inr (ind\<lparr>substring :=
            (case cb_substring d of
               Some b \<Rightarrow> parse_boolean E (PyBool b) Omitted
             | None \<Rightarrow> Some False)\<rparr>)"

definition create_tags :: "store \<Rightarrow> create_body \<Rightarrow> indicator \<Rightarrow> response + indicator" where
  "create_tags s d ind =
     (case cb_tags d of None \<Rightarrow> Inr ind | Some vs \<Rightarrow> append_tags s vs ind)"

text \<open>The checks that follow the construction of the object, in the order of the source,
  and the flush of \<^verbatim>\<open>db.session.commit()\<close>.\<close>

definition create_fields :: "env \<Rightarrow> store \<Rightarrow> create_body \<Rightarrow> indicator \<Rightarrow> response + indicator" where
  "create_fields E s d ind =
     and_then (create_campaigns s d ind) (\<lambda>ind.
     and_then (create_case_sensitive E d ind) (\<lambda>ind.
     and_then (create_confidence s d ind) (\<lambda>ind.
     and_then (create_impact s d ind) (\<lambda>ind.
     and_then (create_references s d ind) (\<lambda>ind.
     and_then (create_status s d ind) (\<lambda>ind.
     and_then (create_substring E d ind) (\<lambda>ind.
     and_then (create_tags s d ind) flush)))))))"

definition create_indicator :: "env \<Rightarrow> store \<Rightarrow> create_body \<Rightarrow> response \<times> store" where
  "create_indicator E s d =
     (case filter_by_value (t_indicator_type s) (cb_type d) of
        None \<Rightarrow> (error_response 404 ''Indicator type not found'', s)
      | Some t \<Rightarrow>
     (case find_user s (cb_username d) of
        None \<Rightarrow> (error_response 404 (''User username not found: '' @ cb_username d), s)
      | Some u \<Rightarrow>
     if \<not> active u
     then (error_response 401 ''Cannot create an indicator with an inactive user'', s)
     else
     (case find (\<lambda>i. type_id i = tax_id t \<and> ivalue i = cb_value d) (t_indicator s) of
        Some existing \<Rightarrow> (error_response 409 ''Indicator already exists'', s)
      | None \<Rightarrow>
     (case create_fields E s d (new_indicator E s t u (cb_value d)) of
        Inl r \<Rightarrow> (r, s)
      | Inr ind \<Rightarrow> (IndicatorJson 201 ind, s\<lparr>t_indicator := t_indicator s @ [ind]\<rparr>)))))"

subsection \<open>Read\<close>

definition read_indicator :: "store \<Rightarrow> int \<Rightarrow> response" where
  "read_indicator s indicator_id =
     (case get_indicator (t_indicator s) indicator_id of
        None \<Rightarrow> error_response 404 ''Indicator ID not found''
      | Some ind \<Rightarrow> IndicatorJson 200 ind)"

text \<open>Python's \<^verbatim>\<open>str.split(',')\<close>.\<close>

fun split_on :: "char \<Rightarrow> string \<Rightarrow> string list" where
  "split_on c [] = [[]]"
| "split_on c (x # xs) =
     (if x = c then [] # split_on c xs
      else (case split_on c xs of [] \<Rightarrow> [[x]] | w # ws \<Rightarrow> (x # w) # ws))"

text \<open>Modelled from the spec: \<^verbatim>\<open>Indicator.to_collection_dict\<close> is not in the source; it
  ``returns a paginated collection envelope'', here a page of the rows of the query and
  their number.\<close>

definition to_collection_dict :: "indicator list \<Rightarrow> nat \<Rightarrow> nat \<Rightarrow> collection" where
  "to_collection_dict rows p n = \<lparr>items = take n (drop ((p - 1) * n) rows), total = length rows\<rparr>"

text \<open>Each block of the handler adds its filters to the set; a row is selected when every
  filter holds of it. A comparison with a NULL column selects nothing.\<close>

definition case_sensitive_filter :: "env \<Rightarrow> query_args \<Rightarrow> (indicator \<Rightarrow> bool) list" where
  "case_sensitive_filter E a =
     (case qa_case_sensitive a of
        None \<Rightarrow> []
      | Some x \<Rightarrow> (let arg = parse_boolean E (PyStr x) (Given None)
                   in [\<lambda>i. case_sensitive i = arg]))"

definition created_after_filter :: "env \<Rightarrow> query_args \<Rightarrow> (indicator \<Rightarrow> bool) list" where
  "created_after_filter E a =
     (case qa_created_after a of
        None \<Rightarrow> []
      | Some x \<Rightarrow>
          (let created_after = (case parse E x True of Some t \<Rightarrow> t | None \<Rightarrow> date_max)
           in [\<lambda>i. created_after < created_time i]))"

definition created_before_filter :: "env \<Rightarrow> query_args \<Rightarrow> (indicator \<Rightarrow> bool) list" where
  "created_before_filter E a =
     (case qa_created_before a of
        None \<Rightarrow> []
      | Some x \<Rightarrow>
          (let created_before = (case parse E x True of Some t \<Rightarrow> t | None \<Rightarrow> date_min)
           in [\<lambda>i. created_time i < created_before]))"

definition confidence_filter :: "store \<Rightarrow> query_args \<Rightarrow> (indicator \<Rightarrow> bool) list" where
  "confidence_filter s a =
     (case qa_confidence a of
        None \<Rightarrow> []
      | Some x \<Rightarrow>
          (let confidence_id' =
                 (case filter_by_value (t_indicator_confidence s) x of
                    Some c \<Rightarrow> tax_id c | None \<Rightarrow> - 1)
           in [\<lambda>i. confidence_id i = Some confidence_id']))"

definition impact_filter :: "store \<Rightarrow> query_args \<Rightarrow> (indicator \<Rightarrow> bool) list" where
  "impact_filter s a =
     (case qa_impact a of
        None \<Rightarrow> []
      | Some x \<Rightarrow>
          (let impact_id' =
                 (case filter_by_value (t_indicator_impact s) x of
                    Some c \<Rightarrow> tax_id c | None \<Rightarrow> - 1)
           in [\<lambda>i. impact_id i = Some impact_id']))"

definition modified_after_filter :: "env \<Rightarrow> query_args \<Rightarrow> (indicator \<Rightarrow> bool) list" where
  "modified_after_filter E a =
     (case qa_modified_after a of
        None \<Rightarrow> []
      | Some x \<Rightarrow>
          (let modified_after = (case parse E x False of Some t \<Rightarrow> t | None \<Rightarrow> date_max)
           in [\<lambda>i. modified_after < modified_time i]))"

definition modified_before_filter :: "env \<Rightarrow> query_args \<Rightarrow> (indicator \<Rightarrow> bool) list" where
  "modified_before_filter E a =
     (case qa_modified_before a of
        None \<Rightarrow> []
      | Some x \<Rightarrow>
          (let modified_before = (case parse E x False of Some t \<Rightarrow> t | None \<Rightarrow> date_min)
           in [\<lambda>i. modified_time i < modified_before]))"

text \<open>\<^verbatim>\<open>Indicator.references.any(_intel_source_id=source_id)\<close>: some reference of the
  indicator's collection has that source.\<close>

definition references_any_source :: "store \<Rightarrow> int \<Rightarrow> indicator \<Rightarrow> bool" where
  "references_any_source s source_id i =
     list_ex (\<lambda>r. Some (reference_id r) \<in> set (references i) \<and> intel_source_id r = source_id)
       (t_intel_reference s)"

definition sources_filter :: "store \<Rightarrow> query_args \<Rightarrow> (indicator \<Rightarrow> bool) list" where
  "sources_filter s a =
     (case qa_sources a of
        None \<Rightarrow> []
      | Some x \<Rightarrow>
          map (\<lambda>src.
                 (let source_id =
                        (case filter_by_value (t_intel_source s) src of
                           Some source \<Rightarrow> tax_id source | None \<Rightarrow> - 1)
                  in references_any_source s source_id))
            (split_on CHR '','' x))"

definition status_filter :: "store \<Rightarrow> query_args \<Rightarrow> (indicator \<Rightarrow> bool) list" where
  "status_filter s a =
     (case qa_status a of
        None \<Rightarrow> []
      | Some x \<Rightarrow>
          (let status_id' =
                 (case filter_by_value (t_indicator_status s) x of
                    Some c \<Rightarrow> tax_id c | None \<Rightarrow> - 1)
           in [\<lambda>i. status_id i = Some status_id']))"

definition substring_filter :: "env \<Rightarrow> query_args \<Rightarrow> (indicator \<Rightarrow> bool) list" where
  "substring_filter E a =
     (case qa_substring a of
        None \<Rightarrow> []
      | Some x \<Rightarrow> (let arg = parse_boolean E (PyStr x) (Given None)
                   in [\<lambda>i. substring i = arg]))"

text \<open>\<^verbatim>\<open>Indicator.tags.any(value=search_tag)\<close>\<close>

definition tags_any_value :: "store \<Rightarrow> string \<Rightarrow> indicator \<Rightarrow> bool" where
  "tags_any_value s v i =
     list_ex (\<lambda>t. Some (tax_id t) \<in> set (tags i) \<and> tax_value t = v) (t_tag s)"

definition tags_filter :: "store \<Rightarrow> query_args \<Rightarrow> (indicator \<Rightarrow> bool) list" where
  "tags_filter s a =
     (case qa_tags a of
        None \<Rightarrow> []
      | Some x \<Rightarrow> map (\<lambda>search_tag. tags_any_value s search_tag) (split_on CHR '','' x))"

definition type_filter :: "store \<Rightarrow> query_args \<Rightarrow> (indicator \<Rightarrow> bool) list" where
  "type_filter s a =
     (case qa_type a of
        None \<Rightarrow> []
      | Some x \<Rightarrow>
          (let type_id' =
                 (case filter_by_value (t_indicator_type s) x of
                    Some c \<Rightarrow> tax_id c | None \<Rightarrow> - 1)
           in [\<lambda>i. type_id i = type_id']))"

definition value_filter :: "env \<Rightarrow> query_args \<Rightarrow> (indicator \<Rightarrow> bool) list" where
  "value_filter E a =
     (case qa_value a of
        None \<Rightarrow> []
      | Some x \<Rightarrow> [\<lambda>i. like E (ivalue i) (''%'' @ x @ ''%'')])"

definition filters :: "env \<Rightarrow> store \<Rightarrow> query_args \<Rightarrow> (indicator \<Rightarrow> bool) list" where
  "filters E s a =
     case_sensitive_filter E a @ created_after_filter E a @ created_before_filter E a @
     confidence_filter s a @ impact_filter s a @ modified_after_filter E a @
     modified_before_filter E a @ sources_filter s a @ status_filter s a @
     substring_filter E a @ tags_filter s a @ type_filter s a @ value_filter E a"

text \<open>\<^verbatim>\<open>Indicator.query.filter(*filters)\<close>\<close>

definition query_filter :: "(indicator \<Rightarrow> bool) list \<Rightarrow> indicator list \<Rightarrow> indicator list" where
  "query_filter fs rows = filter (\<lambda>i. list_all (\<lambda>f. f i) fs) rows"

definition read_indicators :: "env \<Rightarrow> store \<Rightarrow> query_args \<Rightarrow> response" where
  "read_indicators E s a =
     CollectionJson 200
       (to_collection_dict (query_filter (filters E s a) (t_indicator s)) (page a) (per_page a))"

subsection \<open>Update\<close>

text \<open>
  The handler changes the object it loaded and commits at the end; a \<^verbatim>\<open>return\<close> before
  the commit leaves the store as it was. In the three collection blocks the source calls
  \<^verbatim>\<open>error_response\<close> without returning it: the call has no effect, the \<^verbatim>\<open>None\<close> of the
  failed lookup is appended and the list is assigned.
\<close>

definition update_campaigns :: "store \<Rightarrow> update_body \<Rightarrow> indicator \<Rightarrow> response + indicator" where
  "update_campaigns s d ind =
     (case ub_campaigns d of
        None \<Rightarrow> Inr ind
      | Some vs \<Rightarrow>
          (let valid_campaigns = map (\<lambda>v. map_option campaign_id (find_campaign s v)) vs
           in Inr (if valid_campaigns \<noteq> [] then ind\<lparr>campaigns := valid_campaigns\<rparr> else ind)))"

definition update_case_sensitive :: "env \<Rightarrow> update_body \<Rightarrow> indicator \<Rightarrow> response + indicator" where
  "update_case_sensitive E d ind =
     (case ub_case_sensitive d of
        None \<Rightarrow> Inr ind
      | Some b \<Rightarrow> Inr (ind\<lparr>case_sensitive := parse_boolean E (PyBool b) (Given (Some False))\<rparr>))"

definition update_confidence :: "store \<Rightarrow> update_body \<Rightarrow> indicator \<Rightarrow> response + indicator" where
  "update_confidence s d ind =
     (case ub_confidence d of
        None \<Rightarrow> Inr ind
      | Some v \<Rightarrow>
          and_then (flush ind) (\<lambda>ind.
            (case filter_by_value (t_indicator_confidence s) v of
               None \<Rightarrow> Inl (error_response 404 (''Indicator confidence not found: '' @ v))
             | Some c \<Rightarrow> Inr (ind\<lparr>confidence_id := Some (tax_id c)\<rparr>))))"

definition update_impact :: "store \<Rightarrow> update_body \<Rightarrow> indicator \<Rightarrow> response + indicator" where
  "update_impact s d ind =
     (case ub_impact d of
        None \<Rightarrow> Inr ind
      | Some v \<Rightarrow>
          and_then (flush ind) (\<lambda>ind.
            (case filter_by_value (t_indicator_impact s) v of
               None \<Rightarrow> Inl (error_response 404 (''Indicator impact not found: '' @ v))
             | Some c \<Rightarrow> Inr (ind\<lparr>impact_id := Some (tax_id c)\<rparr>))))"

definition update_references :: "store \<Rightarrow> update_body \<Rightarrow> indicator \<Rightarrow> response + indicator" where
  "update_references s d ind =
     (case ub_references d of
        None \<Rightarrow> Inr ind
      | Some vs \<Rightarrow>
          and_then (if vs = [] then Inr ind else flush ind) (\<lambda>ind.
            (let valid_references = map (\<lambda>v. map_option reference_id (find_reference s v)) vs
             in Inr (if valid_references \<noteq> [] then ind\<lparr>references := valid_references\<rparr>
                     else ind))))"

definition update_status :: "store \<Rightarrow> update_body \<Rightarrow> indicator \<Rightarrow> response + indicator" where
  "update_status s d ind =
     (case ub_status d of
        None \<Rightarrow> Inr ind
      | Some v \<Rightarrow>
          and_then (flush ind) (\<lambda>ind.
            (case filter_by_value (t_indicator_status s) v of
               None \<Rightarrow> Inl (error_response 404 (''Indicator status not found: '' @ v))
             | Some c \<Rightarrow> Inr (ind\<lparr>status_id := Some (tax_id c)\<rparr>))))"

definition update_substring :: "env \<Rightarrow> update_body \<Rightarrow> indicator \<Rightarrow> response + indicator" where
  "update_substring E d ind =
     (case ub_substring d of
        None \<Rightarrow> Inr ind
      | Some b \<Rightarrow> Inr (ind\<lparr>substring := parse_boolean E (PyBool b) (Given (Some False))\<rparr>))"

definition update_tags :: "store \<Rightarrow> update_body \<Rightarrow> indicator \<Rightarrow> response + indicator" where
  "update_tags s d ind =
     (case ub_tags d of
        None \<Rightarrow> Inr ind
      | Some vs \<Rightarrow>
          and_then (if vs = [] then Inr ind else flush ind) (\<lambda>ind.
            (let valid_tags = map (\<lambda>v. map_option tax_id (filter_by_value (t_tag s) v)) vs
             in Inr (if valid_tags \<noteq> [] then ind\<lparr>tags := valid_tags\<rparr> else ind))))"

definition update_username :: "store \<Rightarrow> update_body \<Rightarrow> indicator \<Rightarrow> response + indicator" where
  "update_username s d ind =
     (case ub_username d of
        None \<Rightarrow> Inr ind
      | Some v \<Rightarrow>
          and_then (flush ind) (\<lambda>ind.
            (case find_user s v of
               None \<Rightarrow> Inl (error_response 404 (''User username not found: '' @ v))
             | Some u \<Rightarrow>
                 if \<not> active u
                 then Inl (error_response 401 ''Cannot update an indicator with an inactive user'')
                 else Inr (ind\<lparr>user_id := uid u\<rparr>))))"

definition update_fields :: "env \<Rightarrow> store \<Rightarrow> update_body \<Rightarrow> indicator \<Rightarrow> response + indicator" where
  "update_fields E s d ind =
     and_then (update_campaigns s d ind) (\<lambda>ind.
     and_then (update_case_sensitive E d ind) (\<lambda>ind.
     and_then (update_confidence s d ind) (\<lambda>ind.
     and_then (update_impact s d ind) (\<lambda>ind.
     and_then (update_references s d ind) (\<lambda>ind.
     and_then (update_status s d ind) (\<lambda>ind.
     and_then (update_substring E d ind) (\<lambda>ind.
     and_then (update_tags s d ind) (\<lambda>ind.
     and_then (update_username s d ind) flush))))))))"

definition update_indicator :: "env \<Rightarrow> store \<Rightarrow> int \<Rightarrow> update_body \<Rightarrow> response \<times> store" where
  "update_indicator E s indicator_id d =
     (case get_indicator (t_indicator s) indicator_id of
        None \<Rightarrow> (error_response 404 ''Indicator ID not found'', s)
      | Some indicator \<Rightarrow>
          (case update_fields E s d indicator of
             Inl r \<Rightarrow> (r, s)
           | Inr ind \<Rightarrow>
               (IndicatorJson 200 ind,
                s\<lparr>t_indicator :=
                    map (\<lambda>r. if iid r = indicator_id then ind else r) (t_indicator s)\<rparr>)))"

subsection \<open>Delete\<close>

definition commit_delete_indicator :: "store \<Rightarrow> int \<Rightarrow> exn + store" where
  "commit_delete_indicator s i =
     (if i \<in> set (indicator_fks s) then Inl IntegrityError
      else Inr (s\<lparr>t_indicator := filter (\<lambda>r. iid r \<noteq> i) (t_indicator s)\<rparr>))"

definition delete_indicator :: "store \<Rightarrow> int \<Rightarrow> response \<times> store" where
  "delete_indicator s indicator_id =
     (case get_indicator (t_indicator s) indicator_id of
        None \<Rightarrow> (error_response 404 ''Indicator ID not found'', s)
      | Some indicator \<Rightarrow>
          (case commit_delete_indicator s indicator_id of
             Inl IntegrityError \<Rightarrow>
               (error_response 409 ''Unable to delete indicator due to foreign key constraints'', s)
           | Inl e \<Rightarrow> (Raised e, s)
           | Inr s' \<Rightarrow> (NoContent 204, s')))"

section \<open>Properties of the store and of requests\<close>

text \<open>A taxonomy table whose ids and whose values are each unique.\<close>

definition table_unique :: "taxonomy list \<Rightarrow> bool" where
  "table_unique t \<longleftrightarrow> distinct (map tax_id t) \<and> distinct (map tax_value t)"

text \<open>No two indicators share their (type, value) pair.\<close>

definition indicator_unique :: "store \<Rightarrow> bool" where
  "indicator_unique s \<longleftrightarrow> distinct (map (\<lambda>i. (type_id i, ivalue i)) (t_indicator s))"

text \<open>The type named by the body exists and some indicator already has it with the
  body's value.\<close>

definition duplicate_indicator :: "store \<Rightarrow> create_body \<Rightarrow> bool" where
  "duplicate_indicator s d =
     (case filter_by_value (t_indicator_type s) (cb_type d) of
        None \<Rightarrow> False
      | Some t \<Rightarrow> list_ex (\<lambda>i. type_id i = tax_id t \<and> ivalue i = cb_value d) (t_indicator s))"

text \<open>The user named by the body exists and is not active.\<close>

definition inactive_user :: "store \<Rightarrow> create_body \<Rightarrow> bool" where
  "inactive_user s d =
     (case find_user s (cb_username d) of None \<Rightarrow> False | Some u \<Rightarrow> \<not> active u)"

text \<open>Some name of the body does not resolve to a row: the type or the user, which the
  handler looks up first, or one of the names it looks up after building the object.\<close>

definition unknown_one :: "(string \<Rightarrow> bool) \<Rightarrow> string option \<Rightarrow> bool" where
  "unknown_one known x = (case x of None \<Rightarrow> False | Some v \<Rightarrow> \<not> known v)"

definition unknown_some :: "(string \<Rightarrow> bool) \<Rightarrow> string list option \<Rightarrow> bool" where
  "unknown_some known x = (case x of None \<Rightarrow> False | Some vs \<Rightarrow> list_ex (\<lambda>v. \<not> known v) vs)"

definition unknown_later :: "store \<Rightarrow> create_body \<Rightarrow> bool" where
  "unknown_later s d \<longleftrightarrow>
     unknown_some (\<lambda>v. find_campaign s v \<noteq> None) (cb_campaigns d) \<or>
     unknown_one (\<lambda>v. filter_by_value (t_indicator_confidence s) v \<noteq> None) (cb_confidence d) \<or>
     unknown_one (\<lambda>v. filter_by_value (t_indicator_impact s) v \<noteq> None) (cb_impact d) \<or>
     unknown_some (\<lambda>v. find_reference s v \<noteq> None) (cb_references d) \<or>
     unknown_one (\<lambda>v. filter_by_value (t_indicator_status s) v \<noteq> None) (cb_status d) \<or>
     unknown_some (\<lambda>v. filter_by_value (t_tag s) v \<noteq> None) (cb_tags d)"

definition unknown_name :: "store \<Rightarrow> create_body \<Rightarrow> bool" where
  "unknown_name s d \<longleftrightarrow>
     filter_by_value (t_indicator_type s) (cb_type d) = None \<or>
     find_user s (cb_username d) = None \<or>
     unknown_later s d"

text \<open>A row of the table with the lowest id.\<close>

definition lowest_id_row :: "taxonomy list \<Rightarrow> taxonomy \<Rightarrow> bool" where
  "lowest_id_row t m \<longleftrightarrow> m \<in> set t \<and> (\<forall>r \<in> set t. tax_id m \<le> tax_id r)"

text \<open>The column holds the id of a row of the table with the lowest id, and is NULL
  only when the table has no row.\<close>

definition holds_lowest_id :: "taxonomy list \<Rightarrow> int option \<Rightarrow> bool" where
  "holds_lowest_id t c =
     (case c of
        None \<Rightarrow> t = []
      | Some i \<Rightarrow> list_ex (\<lambda>m. tax_id m = i \<and> lowest_id_row t m) t)"

text \<open>
  What a \<^verbatim>\<open>PUT\<close> with body \<open>d\<close> leaves alone when it takes the indicator \<open>ind\<close> to
  \<open>ind'\<close>: the id, the type, the value and the two timestamps, which no body can name and
  the handler never assigns, and every field whose key is absent from the body.
\<close>

definition untouched :: "update_body \<Rightarrow> indicator \<Rightarrow> indicator \<Rightarrow> bool" where
  "untouched d ind ind' \<longleftrightarrow>
     iid ind' = iid ind \<and> type_id ind' = type_id ind \<and> ivalue ind' = ivalue ind \<and>
     created_time ind' = created_time ind \<and> modified_time ind' = modified_time ind \<and>
     (ub_campaigns d = None \<longrightarrow> campaigns ind' = campaigns ind) \<and>
     (ub_case_sensitive d = None \<longrightarrow> case_sensitive ind' = case_sensitive ind) \<and>
     (ub_confidence d = None \<longrightarrow> confidence_id ind' = confidence_id ind) \<and>
     (ub_impact d = None \<longrightarrow> impact_id ind' = impact_id ind) \<and>
     (ub_references d = None \<longrightarrow> references ind' = references ind) \<and>
     (ub_status d = None \<longrightarrow> status_id ind' = status_id ind) \<and>
     (ub_substring d = None \<longrightarrow> substring ind' = substring ind) \<and>
     (ub_tags d = None \<longrightarrow> tags ind' = tags ind) \<and>
     (ub_username d = None \<longrightarrow> user_id ind' = user_id ind)"

text \<open>The ids that the database hands out are positive, so the foreign keys that hold
  them are.\<close>

definition fk_positive :: "int option \<Rightarrow> bool" where
  "fk_positive x = (case x of None \<Rightarrow> True | Some i \<Rightarrow> 0 < i)"

definition ids_positive :: "store \<Rightarrow> bool" where
  "ids_positive s \<longleftrightarrow>
     list_all (\<lambda>i. 0 < type_id i \<and> fk_positive (confidence_id i) \<and> fk_positive (impact_id i) \<and>
                   fk_positive (status_id i)) (t_indicator s) \<and>
     list_all (\<lambda>r. 0 < intel_source_id r) (t_intel_reference s)"

text \<open>The timestamps of the rows are representable times no later than the midnight
  that begins 9999-12-31.\<close>

definition times_in_range :: "store \<Rightarrow> bool" where
  "times_in_range s \<longleftrightarrow>
     list_all (\<lambda>i. date_min \<le> created_time i \<and> created_time i \<le> date_max \<and>
                   date_min \<le> modified_time i \<and> modified_time i \<le> date_max) (t_indicator s)"

text \<open>A query parameter that names no row of its table.\<close>

definition unresolved :: "taxonomy list \<Rightarrow> string option \<Rightarrow> bool" where
  "unresolved t x = (case x of None \<Rightarrow> False | Some v \<Rightarrow> filter_by_value t v = None)"

definition unresolved_source :: "store \<Rightarrow> string option \<Rightarrow> bool" where
  "unresolved_source s x =
     (case x of
        None \<Rightarrow> False
      | Some v \<Rightarrow> list_ex (\<lambda>src. filter_by_value (t_intel_source s) src = None)
                   (split_on CHR '','' v))"

text \<open>A date parameter that the parser rejects.\<close>

definition unparseable :: "env \<Rightarrow> bool \<Rightarrow> string option \<Rightarrow> bool" where
  "unparseable E ignoretz x = (case x of None \<Rightarrow> False | Some v \<Rightarrow> parse E v ignoretz = None)"

section \<open>A small store\<close>

text \<open>
  Two statuses, of which only the first is in use; two indicators with a reference and a
  tag, the second of which a row of another table points to; an active and an inactive
  user. The parser of the example knows one date.
\<close>

definition example_env :: env where
  "example_env =
     \<lparr>parse = (\<lambda>x ignoretz. if x = ''2020-01-01'' then Some 63713433600000000 else None),
      parse_boolean = (\<lambda>v d. case v of PyBool b \<Rightarrow> Some b
                              | PyStr x \<Rightarrow> if x = ''true'' then Some True
                                          else if x = ''false'' then Some False
                                          else (case d of Omitted \<Rightarrow> Some False | Given y \<Rightarrow> y)),
      like = (\<lambda>v p. True),
      now = 63713433600000000\<rparr>"

definition example_indicator :: indicator where
  "example_indicator =
     \<lparr>iid = 1, type_id = 1, user_id = 1, ivalue = ''127.0.0.1'', campaigns = [],
      case_sensitive = Some False, confidence_id = Some 1, impact_id = Some 1,
      references = [Some 1], status_id = Some 1, substring = Some False, tags = [Some 1],
      created_time = 63713433600000000, modified_time = 63713433600000000\<rparr>"

definition example_store :: store where
  "example_store =
     \<lparr>t_campaign = [\<lparr>campaign_id = 1, campaign_name = ''apt''\<rparr>],
      t_indicator = [example_indicator, example_indicator\<lparr>iid := 2, ivalue := ''10.0.0.1''\<rparr>],
      t_indicator_confidence =
        [\<lparr>tax_id = 2, tax_value = ''HIGH''\<rparr>, \<lparr>tax_id = 1, tax_value = ''LOW''\<rparr>],
      t_indicator_impact = [\<lparr>tax_id = 1, tax_value = ''LOW''\<rparr>],
      t_indicator_status = [\<lparr>tax_id = 1, tax_value = ''NEW''\<rparr>, \<lparr>tax_id = 2, tax_value = ''OLD''\<rparr>],
      t_indicator_type = [\<lparr>tax_id = 1, tax_value = ''IP''\<rparr>],
      t_intel_reference =
        [\<lparr>reference_id = 1, reference = ''http://example.com/report'', intel_source_id = 1\<rparr>],
      t_intel_source = [\<lparr>tax_id = 1, tax_value = ''osint''\<rparr>],
      t_tag = [\<lparr>tax_id = 1, tax_value = ''phish''\<rparr>],
      t_user = [\<lparr>uid = 1, username = ''analyst'', active = True\<rparr>,
                \<lparr>uid = 2, username = ''retired'', active = False\<rparr>],
      indicator_fks = [2]\<rparr>"

definition example_create :: create_body where
  "example_create =
     \<lparr>cb_campaigns = None, cb_case_sensitive = None, cb_confidence = None, cb_impact = None,
      cb_references = None, cb_status = None, cb_substring = None, cb_tags = None,
      cb_username = ''analyst'', cb_type = ''IP'', cb_value = ''192.168.0.1''\<rparr>"

definition example_update :: update_body where
  "example_update =
     \<lparr>ub_campaigns = None, ub_case_sensitive = None, ub_confidence = None, ub_impact = None,
      ub_references = None, ub_status = None, ub_substring = None, ub_tags = None,
      ub_username = None\<rparr>"

definition example_args :: query_args where
  "example_args =
     \<lparr>qa_case_sensitive = None, qa_created_after = None, qa_created_before = None,
      qa_confidence = None, qa_impact = None, qa_modified_after = None,
      qa_modified_before = None, qa_sources = None, qa_status = None, qa_substring = None,
      qa_tags = None, qa_type = None, qa_value = None, page = 1, per_page = 10\<rparr>"

section \<open>Lookups and fresh ids\<close>

lemma find_exists: "x \<in> set xs \<Longrightarrow> P x \<Longrightarrow> find P xs \<noteq> None"
  by (auto simp: find_None_iff)

lemma find_holds: "find P xs = Some x \<Longrightarrow> x \<in> set xs \<and> P x"
  by (induction xs) (auto split: if_splits)

lemma next_id_fresh: "next_id ids \<notin> set ids"
proof
  assume a: "next_id ids \<in> set ids"
  have "fold max ids 0 = Max (set (0 # ids))"
    by (simp only: Max.set_eq_fold)
  moreover have "next_id ids \<le> Max (set (0 # ids))"
    using a by (intro Max_ge) auto
  ultimately show False by (simp add: next_id_def)
qed

lemma distinct_map_replace:
  assumes "distinct (map f xs)" and "distinct (map g xs)" and "v \<notin> g ` set xs" and "g y = v"
  shows "distinct (map g (map (\<lambda>r. if f r = i then y else r) xs))"
  using assms
proof (induction xs)
  case Nil
  then show ?case by simp
next
  case (Cons x xs)
  show ?case
  proof (cases "f x = i")
    case True
    from Cons.prems(1) have "f x \<notin> f ` set xs" by simp
    with True have "\<forall>r \<in> set xs. f r \<noteq> i" by blast
    then have "map (\<lambda>r. if f r = i then y else r) xs = xs"
      by (induction xs) auto
    with True Cons.prems show ?thesis by auto
  next
    case False
    have ih: "distinct (map g (map (\<lambda>r. if f r = i then y else r) xs))"
      using Cons.IH Cons.prems by simp
    have "g x \<noteq> v" and "g x \<notin> g ` set xs"
      using Cons.prems by auto
    then have "g x \<notin> g ` set (map (\<lambda>r. if f r = i then y else r) xs)"
      using Cons.prems(4) by (auto split: if_splits)
    with False ih show ?thesis by (simp del: map_map)
  qed
qed

lemma map_id_replace:
  assumes "f y = i"
  shows "map f (map (\<lambda>r. if f r = i then y else r) xs) = map f xs"
  using assms by (induction xs) auto

lemma filter_by_value_exists:
  "v \<in> tax_value ` set t \<Longrightarrow> \<exists>e. filter_by_value t v = Some e"
  unfolding filter_by_value_def using find_exists [of _ t "\<lambda>r. tax_value r = v"] by auto

lemma filter_by_value_None: "filter_by_value t v = None \<Longrightarrow> v \<notin> tax_value ` set t"
  unfolding filter_by_value_def by (auto simp: find_None_iff)

section \<open>Taxonomy rows\<close>

text \<open>
  C9. A \<^verbatim>\<open>PUT\<close> on an existing status row whose new value is the value the row already
  has is refused: the duplicate check finds a row with that value (it does not exclude the
  row being updated), the response is 409 and the store is unchanged.
\<close>

theorem update_indicator_status_same_value:
  assumes "get_taxonomy (t_indicator_status s) i = Some row" and "tax_value row = v"
  shows "update_indicator_status s i v =
           (error_response 409 ''Indicator status already exists'', s)"
proof -
  from assms(1) have "row \<in> set (t_indicator_status s)"
    unfolding get_taxonomy_def by (auto dest: find_holds)
  with assms(2) have "v \<in> tax_value ` set (t_indicator_status s)" by auto
  then obtain e where "filter_by_value (t_indicator_status s) v = Some e"
    using filter_by_value_exists by blast
  with assms(1) show ?thesis
    by (simp add: update_indicator_status_def)
qed

text \<open>The second status of the small store, renamed to its own value.\<close>

theorem update_indicator_status_same_value_witness:
  "get_taxonomy (t_indicator_status example_store) 2 = Some \<lparr>tax_id = 2, tax_value = ''OLD''\<rparr> \<and>
   update_indicator_status example_store 2 ''OLD'' =
     (error_response 409 ''Indicator status already exists'', example_store)"
proof -
  have h: "get_taxonomy (t_indicator_status example_store) 2 = Some \<lparr>tax_id = 2, tax_value = ''OLD''\<rparr>"
    by (simp add: get_taxonomy_def example_store_def)
  show ?thesis
    using h update_indicator_status_same_value [OF h, of "''OLD''"] by simp
qed

lemma create_status_unique:
  assumes "table_unique (t_indicator_status s)"
  shows "table_unique (t_indicator_status (snd (create_indicator_status s v)))"
proof (cases "filter_by_value (t_indicator_status s) v")
  case None
  then have "v \<notin> tax_value ` set (t_indicator_status s)" by (rule filter_by_value_None)
  moreover have "next_id (map tax_id (t_indicator_status s)) \<notin> tax_id ` set (t_indicator_status s)"
    using next_id_fresh [of "map tax_id (t_indicator_status s)"] by simp
  ultimately show ?thesis
    using assms None by (simp add: create_indicator_status_def table_unique_def Let_def)
next
  case (Some e)
  with assms show ?thesis by (simp add: create_indicator_status_def)
qed

lemma update_status_unique:
  assumes "table_unique (t_indicator_status s)"
  shows "table_unique (t_indicator_status (snd (update_indicator_status s i v)))"
proof (cases "get_taxonomy (t_indicator_status s) i")
  case None
  with assms show ?thesis by (simp add: update_indicator_status_def)
next
  case (Some row)
  then have id: "tax_id row = i"
    unfolding get_taxonomy_def by (auto dest: find_holds)
  show ?thesis
  proof (cases "filter_by_value (t_indicator_status s) v")
    case None
    then have fresh: "v \<notin> tax_value ` set (t_indicator_status s)" by (rule filter_by_value_None)
    have "distinct (map tax_value (map (\<lambda>r. if tax_id r = i then row\<lparr>tax_value := v\<rparr> else r)
            (t_indicator_status s)))"
      using assms fresh by (intro distinct_map_replace) (auto simp: table_unique_def)
    moreover have "map tax_id (map (\<lambda>r. if tax_id r = i then row\<lparr>tax_value := v\<rparr> else r)
            (t_indicator_status s)) = map tax_id (t_indicator_status s)"
      using id by (intro map_id_replace) simp
    ultimately show ?thesis
      using assms Some None
      by (simp add: update_indicator_status_def table_unique_def Let_def del: map_map)
  next
    case (Some e)
    with assms \<open>get_taxonomy (t_indicator_status s) i = Some row\<close> show ?thesis
      by (simp add: update_indicator_status_def)
  qed
qed

text \<open>
  C8, as amended. A \<^verbatim>\<open>POST\<close> whose value already exists in the status table is answered
  with 409 and changes nothing. A \<^verbatim>\<open>PUT\<close> whose new value already exists changes nothing
  either; it is answered with 409 when the id names a row and with 404 when it does not,
  since the handler looks the id up first. Both handlers, on any input, keep the ids and
  the values of the table unique.
\<close>

theorem taxonomy_value_conflict:
  "(v \<in> tax_value ` set (t_indicator_status s) \<longrightarrow>
      create_indicator_status s v =
        (error_response 409 ''Indicator status already exists'', s)) \<and>
   (v \<in> tax_value ` set (t_indicator_status s) \<longrightarrow>
      update_indicator_status s i v =
        (if get_taxonomy (t_indicator_status s) i = None
         then (error_response 404 ''Indicator status ID not found'', s)
         else (error_response 409 ''Indicator status already exists'', s))) \<and>
   (table_unique (t_indicator_status s) \<longrightarrow>
      table_unique (t_indicator_status (snd (create_indicator_status s v))) \<and>
      table_unique (t_indicator_status (snd (update_indicator_status s i v))))"
proof (intro conjI impI)
  assume "v \<in> tax_value ` set (t_indicator_status s)"
  then obtain e where e: "filter_by_value (t_indicator_status s) v = Some e"
    using filter_by_value_exists by blast
  then show "create_indicator_status s v =
        (error_response 409 ''Indicator status already exists'', s)"
    by (simp add: create_indicator_status_def)
  from e show "update_indicator_status s i v =
        (if get_taxonomy (t_indicator_status s) i = None
         then (error_response 404 ''Indicator status ID not found'', s)
         else (error_response 409 ''Indicator status already exists'', s))"
    by (auto simp: update_indicator_status_def split: option.splits)
next
  assume "table_unique (t_indicator_status s)"
  then show "table_unique (t_indicator_status (snd (create_indicator_status s v)))"
    and "table_unique (t_indicator_status (snd (update_indicator_status s i v)))"
    by (rule create_status_unique, rule update_status_unique)
qed

text \<open>The value \<open>OLD\<close> exists in the small store; posting it, or renaming the first
  status to it, is a conflict.\<close>

theorem taxonomy_value_conflict_witness:
  "''OLD'' \<in> tax_value ` set (t_indicator_status example_store) \<and>
   table_unique (t_indicator_status example_store) \<and>
   create_indicator_status example_store ''OLD'' =
     (error_response 409 ''Indicator status already exists'', example_store) \<and>
   update_indicator_status example_store 1 ''OLD'' =
     (error_response 409 ''Indicator status already exists'', example_store) \<and>
   table_unique (t_indicator_status (snd (create_indicator_status example_store ''OLD''))) \<and>
   table_unique (t_indicator_status (snd (update_indicator_status example_store 1 ''OLD'')))"
proof -
  have h1: "''OLD'' \<in> tax_value ` set (t_indicator_status example_store)"
    by (simp add: example_store_def)
  have h2: "table_unique (t_indicator_status example_store)"
    by (simp add: example_store_def table_unique_def)
  have h3: "get_taxonomy (t_indicator_status example_store) 1 = Some \<lparr>tax_id = 1, tax_value = ''NEW''\<rparr>"
    by (simp add: example_store_def get_taxonomy_def)
  show ?thesis
    using h1 h2 h3 taxonomy_value_conflict [of "''OLD''" example_store 1] by simp
qed

text \<open>C8 as stated fails: a \<^verbatim>\<open>PUT\<close> of an existing value to an id that names no row is
  answered with 404, not 409.\<close>

theorem taxonomy_put_missing_row_counterexample:
  "''OLD'' \<in> tax_value ` set (t_indicator_status example_store) \<and>
   status_code (fst (update_indicator_status example_store 9 ''OLD'')) = 404"
  by (simp add: example_store_def update_indicator_status_def get_taxonomy_def error_response_def)


section \<open>Deleting\<close>

lemma find_filter_out: "find P (filter (\<lambda>r. \<not> P r) xs) = None"
  by (simp add: find_None_iff)

text \<open>
  C5. Deleting a status that an indicator still refers to, or an indicator that a row of
  another table still refers to, meets the integrity error at commit; the handler catches
  it, rolls back and answers 409, and the row is still there. Deleting an existing row
  that nothing refers to is answered with 204 and removes the row.
\<close>

theorem delete_foreign_key_protected:
  "(get_taxonomy (t_indicator_status s) i = Some row \<and> status_referenced s i \<longrightarrow>
      delete_indicator_status s i =
        (error_response 409 ''Unable to delete indicator status due to foreign key constraints'', s) \<and>
      get_taxonomy (t_indicator_status (snd (delete_indicator_status s i))) i = Some row) \<and>
   (get_taxonomy (t_indicator_status s) i = Some row \<and> \<not> status_referenced s i \<longrightarrow>
      delete_indicator_status s i =
        (NoContent 204,
         s\<lparr>t_indicator_status := filter (\<lambda>r. tax_id r \<noteq> i) (t_indicator_status s)\<rparr>) \<and>
      get_taxonomy (t_indicator_status (snd (delete_indicator_status s i))) i = None) \<and>
   (get_indicator (t_indicator s) j = Some ind \<and> j \<in> set (indicator_fks s) \<longrightarrow>
      delete_indicator s j =
        (error_response 409 ''Unable to delete indicator due to foreign key constraints'', s) \<and>
      get_indicator (t_indicator (snd (delete_indicator s j))) j = Some ind) \<and>
   (get_indicator (t_indicator s) j = Some ind \<and> j \<notin> set (indicator_fks s) \<longrightarrow>
      delete_indicator s j =
        (NoContent 204, s\<lparr>t_indicator := filter (\<lambda>r. iid r \<noteq> j) (t_indicator s)\<rparr>) \<and>
      get_indicator (t_indicator (snd (delete_indicator s j))) j = None)"
proof (intro conjI impI)
  assume a: "get_taxonomy (t_indicator_status s) i = Some row \<and> status_referenced s i"
  then show "delete_indicator_status s i =
        (error_response 409 ''Unable to delete indicator status due to foreign key constraints'', s)"
    by (simp add: delete_indicator_status_def commit_delete_status_def)
  with a show "get_taxonomy (t_indicator_status (snd (delete_indicator_status s i))) i = Some row"
    by simp
next
  assume a: "get_taxonomy (t_indicator_status s) i = Some row \<and> \<not> status_referenced s i"
  then show d: "delete_indicator_status s i =
        (NoContent 204,
         s\<lparr>t_indicator_status := filter (\<lambda>r. tax_id r \<noteq> i) (t_indicator_status s)\<rparr>)"
    by (simp add: delete_indicator_status_def commit_delete_status_def)
  show "get_taxonomy (t_indicator_status (snd (delete_indicator_status s i))) i = None"
    unfolding d get_taxonomy_def using find_filter_out [of "\<lambda>r. tax_id r = i"] by simp
next
  assume a: "get_indicator (t_indicator s) j = Some ind \<and> j \<in> set (indicator_fks s)"
  then show "delete_indicator s j =
        (error_response 409 ''Unable to delete indicator due to foreign key constraints'', s)"
    by (simp add: delete_indicator_def commit_delete_indicator_def)
  with a show "get_indicator (t_indicator (snd (delete_indicator s j))) j = Some ind"
    by simp
next
  assume a: "get_indicator (t_indicator s) j = Some ind \<and> j \<notin> set (indicator_fks s)"
  then show d: "delete_indicator s j =
        (NoContent 204, s\<lparr>t_indicator := filter (\<lambda>r. iid r \<noteq> j) (t_indicator s)\<rparr>)"
    by (simp add: delete_indicator_def commit_delete_indicator_def)
  show "get_indicator (t_indicator (snd (delete_indicator s j))) j = None"
    unfolding d get_indicator_def using find_filter_out [of "\<lambda>r. iid r = j"] by simp
qed

text \<open>In the small store the first status and the second indicator are referred to, the
  second status and the first indicator are not.\<close>

theorem delete_foreign_key_protected_witness:
  "status_referenced example_store 1 \<and> \<not> status_referenced example_store 2 \<and>
   2 \<in> set (indicator_fks example_store) \<and> 1 \<notin> set (indicator_fks example_store) \<and>
   status_code (fst (delete_indicator_status example_store 1)) = 409 \<and>
   snd (delete_indicator_status example_store 1) = example_store \<and>
   status_code (fst (delete_indicator_status example_store 2)) = 204 \<and>
   get_taxonomy (t_indicator_status (snd (delete_indicator_status example_store 2))) 2 = None \<and>
   status_code (fst (delete_indicator example_store 2)) = 409 \<and>
   snd (delete_indicator example_store 2) = example_store \<and>
   status_code (fst (delete_indicator example_store 1)) = 204 \<and>
   get_indicator (t_indicator (snd (delete_indicator example_store 1))) 1 = None"
proof -
  have s1: "get_taxonomy (t_indicator_status example_store) 1 = Some \<lparr>tax_id = 1, tax_value = ''NEW''\<rparr>"
    and s2: "get_taxonomy (t_indicator_status example_store) 2 = Some \<lparr>tax_id = 2, tax_value = ''OLD''\<rparr>"
    by (simp_all add: get_taxonomy_def example_store_def)
  have i1: "get_indicator (t_indicator example_store) 1 = Some example_indicator"
    and i2: "get_indicator (t_indicator example_store) 2 =
               Some (example_indicator\<lparr>iid := 2, ivalue := ''10.0.0.1''\<rparr>)"
    by (simp_all add: get_indicator_def example_store_def example_indicator_def)
  have r1: "status_referenced example_store 1" and r2: "\<not> status_referenced example_store 2"
    by (simp_all add: status_referenced_def example_store_def example_indicator_def)
  have f: "2 \<in> set (indicator_fks example_store)" "1 \<notin> set (indicator_fks example_store)"
    by (simp_all add: example_store_def)
  note t1 = delete_foreign_key_protected [where s = example_store and i = 1 and j = 2
        and row = "\<lparr>tax_id = 1, tax_value = ''NEW''\<rparr>"
        and ind = "example_indicator\<lparr>iid := 2, ivalue := ''10.0.0.1''\<rparr>"]
  note t2 = delete_foreign_key_protected [where s = example_store and i = 2 and j = 1
        and row = "\<lparr>tax_id = 2, tax_value = ''OLD''\<rparr>" and ind = example_indicator]
  have c1: "delete_indicator_status example_store 1 =
        (error_response 409 ''Unable to delete indicator status due to foreign key constraints'',
         example_store)"
    using t1 s1 r1 by blast
  have c2: "delete_indicator example_store 2 =
        (error_response 409 ''Unable to delete indicator due to foreign key constraints'',
         example_store)"
    using t1 i2 f(1) by blast
  have c3: "delete_indicator_status example_store 2 =
        (NoContent 204, example_store\<lparr>t_indicator_status :=
           filter (\<lambda>r. tax_id r \<noteq> 2) (t_indicator_status example_store)\<rparr>)"
    and c4: "get_taxonomy (t_indicator_status (snd (delete_indicator_status example_store 2))) 2 = None"
    using t2 s2 r2 by blast+
  have c5: "delete_indicator example_store 1 =
        (NoContent 204, example_store\<lparr>t_indicator :=
           filter (\<lambda>r. iid r \<noteq> 1) (t_indicator example_store)\<rparr>)"
    and c6: "get_indicator (t_indicator (snd (delete_indicator example_store 1))) 1 = None"
    using t2 i1 f(2) by blast+
  show ?thesis
    unfolding c4 c6 unfolding c1 c2 c3 c5 using r1 r2 f by (simp add: error_response_def)
qed

section \<open>Creating an indicator\<close>

subsection \<open>The checks, one by one\<close>

lemma and_then_Inr: "and_then m f = Inr y \<longleftrightarrow> (\<exists>x. m = Inr x \<and> f x = Inr y)"
  by (cases m) (simp_all add: and_then_def)

lemma and_then_Inl: "and_then m f = Inl r \<longleftrightarrow> m = Inl r \<or> (\<exists>x. m = Inr x \<and> f x = Inl r)"
  by (cases m) (simp_all add: and_then_def)

lemma flush_Inr: "flush ind = Inr ind' \<longleftrightarrow> ind' = ind \<and> \<not> has_none ind"
  by (auto simp: flush_def)

lemma flush_Inl: "flush ind = Inl r \<longleftrightarrow> r = Raised FlushError \<and> has_none ind"
  by (auto simp: flush_def)

lemma first_by_id_None: "first_by_id t = None \<longleftrightarrow> t = []"
  by (cases t) (auto split: option.splits if_splits)

lemma first_by_id_lowest: "first_by_id t = Some m \<Longrightarrow> lowest_id_row t m"
proof (induction t arbitrary: m)
  case Nil
  then show ?case by simp
next
  case (Cons r rs)
  show ?case
  proof (cases "first_by_id rs")
    case None
    then have "rs = []" by (simp add: first_by_id_None)
    with Cons.prems show ?thesis by (simp add: lowest_id_row_def)
  next
    case (Some m')
    then have "lowest_id_row rs m'" by (rule Cons.IH)
    with Cons.prems Some show ?thesis
      by (auto simp: lowest_id_row_def split: if_splits)
  qed
qed

lemma append_campaigns_Inr:
  "append_campaigns s vs ind = Inr ind' \<Longrightarrow>
     \<exists>cs. ind' = ind\<lparr>campaigns := campaigns ind @ cs\<rparr> \<and> None \<notin> set cs \<and>
          \<not> list_ex (\<lambda>v. find_campaign s v = None) vs"
proof (induction vs arbitrary: ind)
  case Nil
  then show ?case by (intro exI [of _ "[]"]) simp
next
  case (Cons v vs)
  from Cons.prems obtain c where c: "find_campaign s v = Some c"
    and r: "append_campaigns s vs (ind\<lparr>campaigns := campaigns ind @ [Some (campaign_id c)]\<rparr>) = Inr ind'"
    by (auto split: option.splits)
  from Cons.IH [OF r] obtain cs where
    "ind' = ind\<lparr>campaigns := campaigns ind @ [Some (campaign_id c)]\<rparr>
              \<lparr>campaigns := campaigns (ind\<lparr>campaigns := campaigns ind @ [Some (campaign_id c)]\<rparr>) @ cs\<rparr>"
    "None \<notin> set cs" "\<not> list_ex (\<lambda>v. find_campaign s v = None) vs"
    by blast
  with c show ?case
    by (intro exI [of _ "Some (campaign_id c) # cs"]) simp
qed

lemma append_campaigns_Inl:
  "append_campaigns s vs ind = Inl r \<Longrightarrow>
     status_code r = 404 \<and> list_ex (\<lambda>v. find_campaign s v = None) vs"
  by (induction vs arbitrary: ind) (auto simp: error_response_def split: option.splits)

lemma append_references_Inr:
  "append_references s vs ind = Inr ind' \<Longrightarrow>
     \<exists>cs. ind' = ind\<lparr>references := references ind @ cs\<rparr> \<and> None \<notin> set cs \<and>
          \<not> list_ex (\<lambda>v. find_reference s v = None) vs"
proof (induction vs arbitrary: ind)
  case Nil
  then show ?case by (intro exI [of _ "[]"]) simp
next
  case (Cons v vs)
  from Cons.prems obtain c where c: "find_reference s v = Some c"
    and r: "append_references s vs (ind\<lparr>references := references ind @ [Some (reference_id c)]\<rparr>) = Inr ind'"
    by (auto split: option.splits)
  from Cons.IH [OF r] obtain cs where
    "ind' = ind\<lparr>references := references ind @ [Some (reference_id c)]\<rparr>
              \<lparr>references := references (ind\<lparr>references := references ind @ [Some (reference_id c)]\<rparr>) @ cs\<rparr>"
    "None \<notin> set cs" "\<not> list_ex (\<lambda>v. find_reference s v = None) vs"
    by blast
  with c show ?case
    by (intro exI [of _ "Some (reference_id c) # cs"]) simp
qed

lemma append_references_Inl:
  "append_references s vs ind = Inl r \<Longrightarrow>
     status_code r = 404 \<and> list_ex (\<lambda>v. find_reference s v = None) vs"
  by (induction vs arbitrary: ind) (auto simp: error_response_def split: option.splits)

lemma append_tags_Inr:
  "append_tags s vs ind = Inr ind' \<Longrightarrow>
     \<exists>cs. ind' = ind\<lparr>tags := tags ind @ cs\<rparr> \<and> None \<notin> set cs \<and>
          \<not> list_ex (\<lambda>v. filter_by_value (t_tag s) v = None) vs"
proof (induction vs arbitrary: ind)
  case Nil
  then show ?case by (intro exI [of _ "[]"]) simp
next
  case (Cons v vs)
  from Cons.prems obtain c where c: "filter_by_value (t_tag s) v = Some c"
    and r: "append_tags s vs (ind\<lparr>tags := tags ind @ [Some (tax_id c)]\<rparr>) = Inr ind'"
    by (auto split: option.splits)
  from Cons.IH [OF r] obtain cs where
    "ind' = ind\<lparr>tags := tags ind @ [Some (tax_id c)]\<rparr>
              \<lparr>tags := tags (ind\<lparr>tags := tags ind @ [Some (tax_id c)]\<rparr>) @ cs\<rparr>"
    "None \<notin> set cs" "\<not> list_ex (\<lambda>v. filter_by_value (t_tag s) v = None) vs"
    by blast
  with c show ?case
    by (intro exI [of _ "Some (tax_id c) # cs"]) simp
qed

lemma append_tags_Inl:
  "append_tags s vs ind = Inl r \<Longrightarrow>
     status_code r = 404 \<and> list_ex (\<lambda>v. filter_by_value (t_tag s) v = None) vs"
  by (induction vs arbitrary: ind) (auto simp: error_response_def split: option.splits)

lemma create_campaigns_Inr:
  "create_campaigns s d ind = Inr ind' \<Longrightarrow>
     \<exists>cs. ind' = ind\<lparr>campaigns := campaigns ind @ cs\<rparr> \<and> None \<notin> set cs \<and>
          \<not> unknown_some (\<lambda>v. find_campaign s v \<noteq> None) (cb_campaigns d)"
proof (cases "cb_campaigns d")
  case None
  assume "create_campaigns s d ind = Inr ind'"
  with None show ?thesis
    by (intro exI [of _ "[]"]) (simp add: create_campaigns_def unknown_some_def)
next
  case (Some vs)
  assume "create_campaigns s d ind = Inr ind'"
  with Some have "append_campaigns s vs ind = Inr ind'" by (simp add: create_campaigns_def)
  from append_campaigns_Inr [OF this] Some show ?thesis
    by (simp add: unknown_some_def)
qed

lemma create_campaigns_Inl:
  "create_campaigns s d ind = Inl r \<Longrightarrow>
     status_code r = 404 \<and> unknown_some (\<lambda>v. find_campaign s v \<noteq> None) (cb_campaigns d)"
proof (cases "cb_campaigns d")
  case None
  assume "create_campaigns s d ind = Inl r"
  with None show ?thesis by (simp add: create_campaigns_def)
next
  case (Some vs)
  assume "create_campaigns s d ind = Inl r"
  with Some have "append_campaigns s vs ind = Inl r" by (simp add: create_campaigns_def)
  from append_campaigns_Inl [OF this] Some show ?thesis
    by (simp add: unknown_some_def)
qed

lemma create_references_Inr:
  "create_references s d ind = Inr ind' \<Longrightarrow>
     \<exists>cs. ind' = ind\<lparr>references := references ind @ cs\<rparr> \<and> None \<notin> set cs \<and>
          \<not> unknown_some (\<lambda>v. find_reference s v \<noteq> None) (cb_references d)"
proof (cases "cb_references d")
  case None
  assume "create_references s d ind = Inr ind'"
  with None show ?thesis
    by (intro exI [of _ "[]"]) (simp add: create_references_def unknown_some_def)
next
  case (Some vs)
  assume "create_references s d ind = Inr ind'"
  with Some have "append_references s vs ind = Inr ind'" by (simp add: create_references_def)
  from append_references_Inr [OF this] Some show ?thesis
    by (simp add: unknown_some_def)
qed

lemma create_references_Inl:
  "create_references s d ind = Inl r \<Longrightarrow>
     status_code r = 404 \<and> unknown_some (\<lambda>v. find_reference s v \<noteq> None) (cb_references d)"
proof (cases "cb_references d")
  case None
  assume "create_references s d ind = Inl r"
  with None show ?thesis by (simp add: create_references_def)
next
  case (Some vs)
  assume "create_references s d ind = Inl r"
  with Some have "append_references s vs ind = Inl r" by (simp add: create_references_def)
  from append_references_Inl [OF this] Some show ?thesis
    by (simp add: unknown_some_def)
qed

lemma create_tags_Inr:
  "create_tags s d ind = Inr ind' \<Longrightarrow>
     \<exists>cs. ind' = ind\<lparr>tags := tags ind @ cs\<rparr> \<and> None \<notin> set cs \<and>
          \<not> unknown_some (\<lambda>v. filter_by_value (t_tag s) v \<noteq> None) (cb_tags d)"
proof (cases "cb_tags d")
  case None
  assume "create_tags s d ind = Inr ind'"
  with None show ?thesis
    by (intro exI [of _ "[]"]) (simp add: create_tags_def unknown_some_def)
next
  case (Some vs)
  assume "create_tags s d ind = Inr ind'"
  with Some have "append_tags s vs ind = Inr ind'" by (simp add: create_tags_def)
  from append_tags_Inr [OF this] Some show ?thesis
    by (simp add: unknown_some_def)
qed

lemma create_tags_Inl:
  "create_tags s d ind = Inl r \<Longrightarrow>
     status_code r = 404 \<and> unknown_some (\<lambda>v. filter_by_value (t_tag s) v \<noteq> None) (cb_tags d)"
proof (cases "cb_tags d")
  case None
  assume "create_tags s d ind = Inl r"
  with None show ?thesis by (simp add: create_tags_def)
next
  case (Some vs)
  assume "create_tags s d ind = Inl r"
  with Some have "append_tags s vs ind = Inl r" by (simp add: create_tags_def)
  from append_tags_Inl [OF this] Some show ?thesis
    by (simp add: unknown_some_def)
qed

lemma create_confidence_Inr:
  "create_confidence s d ind = Inr ind' \<Longrightarrow>
     \<exists>c. ind' = ind\<lparr>confidence_id := c\<rparr> \<and>
         (cb_confidence d = None \<longrightarrow> c = map_option tax_id (first_by_id (t_indicator_confidence s))) \<and>
         \<not> unknown_one (\<lambda>v. filter_by_value (t_indicator_confidence s) v \<noteq> None) (cb_confidence d)"
  unfolding create_confidence_def unknown_one_def
  by (auto split: option.splits)

lemma create_confidence_Inl:
  "create_confidence s d ind = Inl r \<Longrightarrow>
     status_code r = 404 \<and>
     unknown_one (\<lambda>v. filter_by_value (t_indicator_confidence s) v \<noteq> None) (cb_confidence d)"
  unfolding create_confidence_def unknown_one_def
  by (auto simp: error_response_def split: option.splits)

lemma create_impact_Inr:
  "create_impact s d ind = Inr ind' \<Longrightarrow>
     \<exists>c. ind' = ind\<lparr>impact_id := c\<rparr> \<and>
         (cb_impact d = None \<longrightarrow> c = map_option tax_id (first_by_id (t_indicator_impact s))) \<and>
         \<not> unknown_one (\<lambda>v. filter_by_value (t_indicator_impact s) v \<noteq> None) (cb_impact d)"
  unfolding create_impact_def unknown_one_def
  by (auto split: option.splits)

lemma create_impact_Inl:
  "create_impact s d ind = Inl r \<Longrightarrow>
     status_code r = 404 \<and>
     unknown_one (\<lambda>v. filter_by_value (t_indicator_impact s) v \<noteq> None) (cb_impact d)"
  unfolding create_impact_def unknown_one_def
  by (auto simp: error_response_def split: option.splits)

lemma create_status_Inr:
  "create_status s d ind = Inr ind' \<Longrightarrow>
     \<exists>c. ind' = ind\<lparr>status_id := c\<rparr> \<and>
         (cb_status d = None \<longrightarrow> c = map_option tax_id (first_by_id (t_indicator_status s))) \<and>
         \<not> unknown_one (\<lambda>v. filter_by_value (t_indicator_status s) v \<noteq> None) (cb_status d)"
  unfolding create_status_def unknown_one_def
  by (auto split: option.splits)

lemma create_status_Inl:
  "create_status s d ind = Inl r \<Longrightarrow>
     status_code r = 404 \<and>
     unknown_one (\<lambda>v. filter_by_value (t_indicator_status s) v \<noteq> None) (cb_status d)"
  unfolding create_status_def unknown_one_def
  by (auto simp: error_response_def split: option.splits)

lemma create_fields_Inr:
  assumes "create_fields E s d ind = Inr ind'"
  shows "iid ind' = iid ind \<and> type_id ind' = type_id ind \<and> ivalue ind' = ivalue ind \<and>
     (cb_confidence d = None \<longrightarrow>
        confidence_id ind' = map_option tax_id (first_by_id (t_indicator_confidence s))) \<and>
     (cb_impact d = None \<longrightarrow>
        impact_id ind' = map_option tax_id (first_by_id (t_indicator_impact s))) \<and>
     (cb_status d = None \<longrightarrow>
        status_id ind' = map_option tax_id (first_by_id (t_indicator_status s))) \<and>
     \<not> unknown_later s d"
proof -
  from assms obtain i1 i2 i3 i4 i5 i6 i7 where
    s1: "create_campaigns s d ind = Inr i1" and
    s2: "create_case_sensitive E d i1 = Inr i2" and
    s3: "create_confidence s d i2 = Inr i3" and
    s4: "create_impact s d i3 = Inr i4" and
    s5: "create_references s d i4 = Inr i5" and
    s6: "create_status s d i5 = Inr i6" and
    s7: "create_substring E d i6 = Inr i7" and
    s8: "create_tags s d i7 = Inr ind'"
    unfolding create_fields_def and_then_Inr flush_Inr by blast
  note e1 = create_campaigns_Inr [OF s1]
  from s2 obtain c2 where e2: "i2 = i1\<lparr>case_sensitive := c2\<rparr>"
    by (auto simp: create_case_sensitive_def)
  note e3 = create_confidence_Inr [OF s3]
  note e4 = create_impact_Inr [OF s4]
  note e5 = create_references_Inr [OF s5]
  note e6 = create_status_Inr [OF s6]
  from s7 obtain c7 where e7: "i7 = i6\<lparr>substring := c7\<rparr>"
    by (auto simp: create_substring_def)
  note e8 = create_tags_Inr [OF s8]
  from e1 obtain cs1 where c1: "i1 = ind\<lparr>campaigns := campaigns ind @ cs1\<rparr>"
    and u1: "\<not> unknown_some (\<lambda>v. find_campaign s v \<noteq> None) (cb_campaigns d)"
    by (elim exE conjE)
  from e3 obtain c3 where c3: "i3 = i2\<lparr>confidence_id := c3\<rparr>"
    "cb_confidence d = None \<longrightarrow> c3 = map_option tax_id (first_by_id (t_indicator_confidence s))"
    and u3: "\<not> unknown_one (\<lambda>v. filter_by_value (t_indicator_confidence s) v \<noteq> None) (cb_confidence d)"
    by (elim exE conjE)
  from e4 obtain c4 where c4: "i4 = i3\<lparr>impact_id := c4\<rparr>"
    "cb_impact d = None \<longrightarrow> c4 = map_option tax_id (first_by_id (t_indicator_impact s))"
    and u4: "\<not> unknown_one (\<lambda>v. filter_by_value (t_indicator_impact s) v \<noteq> None) (cb_impact d)"
    by (elim exE conjE)
  from e5 obtain cs5 where c5: "i5 = i4\<lparr>references := references i4 @ cs5\<rparr>"
    and u5: "\<not> unknown_some (\<lambda>v. find_reference s v \<noteq> None) (cb_references d)"
    by (elim exE conjE)
  from e6 obtain c6 where c6: "i6 = i5\<lparr>status_id := c6\<rparr>"
    "cb_status d = None \<longrightarrow> c6 = map_option tax_id (first_by_id (t_indicator_status s))"
    and u6: "\<not> unknown_one (\<lambda>v. filter_by_value (t_indicator_status s) v \<noteq> None) (cb_status d)"
    by (elim exE conjE)
  from e8 obtain cs8 where c8: "ind' = i7\<lparr>tags := tags i7 @ cs8\<rparr>"
    and u8: "\<not> unknown_some (\<lambda>v. filter_by_value (t_tag s) v \<noteq> None) (cb_tags d)"
    by (elim exE conjE)
  from u1 u3 u4 u5 u6 u8 have unk: "\<not> unknown_later s d"
    by (simp add: unknown_later_def)
  have eq: "ind' = ind\<lparr>campaigns := campaigns ind @ cs1, case_sensitive := c2,
      confidence_id := c3, impact_id := c4, references := references ind @ cs5,
      status_id := c6, substring := c7, tags := tags ind @ cs8\<rparr>"
    by (simp add: c8 e7 c6(1) c5 c4(1) c3(1) e2 c1)
  show ?thesis
    using unk c3(2) c4(2) c6(2) by (simp add: eq)
qed

lemma and_then_InlE:
  assumes "and_then m f = Inl r"
  obtains "m = Inl r" | x where "m = Inr x" and "f x = Inl r"
  using assms unfolding and_then_Inl by blast

lemma create_steps_no_none:
  "create_campaigns s d ind = Inr ind' \<Longrightarrow> \<not> has_none ind \<Longrightarrow> \<not> has_none ind'"
  "create_case_sensitive E d ind = Inr ind' \<Longrightarrow> \<not> has_none ind \<Longrightarrow> \<not> has_none ind'"
  "create_confidence s d ind = Inr ind' \<Longrightarrow> \<not> has_none ind \<Longrightarrow> \<not> has_none ind'"
  "create_impact s d ind = Inr ind' \<Longrightarrow> \<not> has_none ind \<Longrightarrow> \<not> has_none ind'"
  "create_references s d ind = Inr ind' \<Longrightarrow> \<not> has_none ind \<Longrightarrow> \<not> has_none ind'"
  "create_status s d ind = Inr ind' \<Longrightarrow> \<not> has_none ind \<Longrightarrow> \<not> has_none ind'"
  "create_substring E d ind = Inr ind' \<Longrightarrow> \<not> has_none ind \<Longrightarrow> \<not> has_none ind'"
  "create_tags s d ind = Inr ind' \<Longrightarrow> \<not> has_none ind \<Longrightarrow> \<not> has_none ind'"
proof -
  show "\<not> has_none ind'" if "create_campaigns s d ind = Inr ind'" and n: "\<not> has_none ind"
  proof -
    from create_campaigns_Inr [OF that(1)] obtain cs where
      "ind' = ind\<lparr>campaigns := campaigns ind @ cs\<rparr>" and "None \<notin> set cs"
      by (elim exE conjE)
    with n show ?thesis by (simp add: has_none_def)
  qed
  show "\<not> has_none ind'" if "create_case_sensitive E d ind = Inr ind'" and n: "\<not> has_none ind"
    using that by (auto simp: create_case_sensitive_def has_none_def)
  show "\<not> has_none ind'" if "create_confidence s d ind = Inr ind'" and n: "\<not> has_none ind"
  proof -
    from create_confidence_Inr [OF that(1)] obtain c where "ind' = ind\<lparr>confidence_id := c\<rparr>"
      by (elim exE conjE)
    with n show ?thesis by (simp add: has_none_def)
  qed
  show "\<not> has_none ind'" if "create_impact s d ind = Inr ind'" and n: "\<not> has_none ind"
  proof -
    from create_impact_Inr [OF that(1)] obtain c where "ind' = ind\<lparr>impact_id := c\<rparr>"
      by (elim exE conjE)
    with n show ?thesis by (simp add: has_none_def)
  qed
  show "\<not> has_none ind'" if "create_references s d ind = Inr ind'" and n: "\<not> has_none ind"
  proof -
    from create_references_Inr [OF that(1)] obtain cs where
      "ind' = ind\<lparr>references := references ind @ cs\<rparr>" and "None \<notin> set cs"
      by (elim exE conjE)
    with n show ?thesis by (simp add: has_none_def)
  qed
  show "\<not> has_none ind'" if "create_status s d ind = Inr ind'" and n: "\<not> has_none ind"
  proof -
    from create_status_Inr [OF that(1)] obtain c where "ind' = ind\<lparr>status_id := c\<rparr>"
      by (elim exE conjE)
    with n show ?thesis by (simp add: has_none_def)
  qed
  show "\<not> has_none ind'" if "create_substring E d ind = Inr ind'" and n: "\<not> has_none ind"
    using that by (auto simp: create_substring_def has_none_def)
  show "\<not> has_none ind'" if "create_tags s d ind = Inr ind'" and n: "\<not> has_none ind"
  proof -
    from create_tags_Inr [OF that(1)] obtain cs where
      "ind' = ind\<lparr>tags := tags ind @ cs\<rparr>" and "None \<notin> set cs"
      by (elim exE conjE)
    with n show ?thesis by (simp add: has_none_def)
  qed
qed

lemma create_fields_Inl:
  assumes "create_fields E s d ind = Inl r" and "\<not> has_none ind"
  shows "status_code r = 404 \<and> unknown_later s d"
  using assms(1) unfolding create_fields_def
proof (elim and_then_InlE, goal_cases)
  case 1
  from create_campaigns_Inl [OF 1] show ?case by (simp add: unknown_later_def)
next
  case (2 i1)
  from 2(2) show ?case by (simp add: create_case_sensitive_def)
next
  case (3 i1 i2)
  from create_confidence_Inl [OF 3(3)] show ?case by (simp add: unknown_later_def)
next
  case (4 i1 i2 i3)
  from create_impact_Inl [OF 4(4)] show ?case by (simp add: unknown_later_def)
next
  case (5 i1 i2 i3 i4)
  from create_references_Inl [OF 5(5)] show ?case by (simp add: unknown_later_def)
next
  case (6 i1 i2 i3 i4 i5)
  from create_status_Inl [OF 6(6)] show ?case by (simp add: unknown_later_def)
next
  case (7 i1 i2 i3 i4 i5 i6)
  from 7(7) show ?case by (simp add: create_substring_def)
next
  case (8 i1 i2 i3 i4 i5 i6 i7)
  from create_tags_Inl [OF 8(8)] show ?case by (simp add: unknown_later_def)
next
  case (9 i1 i2 i3 i4 i5 i6 i7 i8)
  have "\<not> has_none i1" using 9(1) assms(2) by (rule create_steps_no_none(1))
  with 9(2) have "\<not> has_none i2" by (rule create_steps_no_none(2))
  with 9(3) have "\<not> has_none i3" by (rule create_steps_no_none(3))
  with 9(4) have "\<not> has_none i4" by (rule create_steps_no_none(4))
  with 9(5) have "\<not> has_none i5" by (rule create_steps_no_none(5))
  with 9(6) have "\<not> has_none i6" by (rule create_steps_no_none(6))
  with 9(7) have "\<not> has_none i7" by (rule create_steps_no_none(7))
  with 9(8) have "\<not> has_none i8" by (rule create_steps_no_none(8))
  with 9(9) show ?case by (simp add: flush_Inl)
qed

subsection \<open>The handler as a whole\<close>

lemma holds_lowest_id_first: "holds_lowest_id t (map_option tax_id (first_by_id t))"
proof (cases "first_by_id t")
  case None
  then show ?thesis by (simp add: holds_lowest_id_def first_by_id_None)
next
  case (Some m)
  then have "lowest_id_row t m" by (rule first_by_id_lowest)
  moreover from this have "m \<in> set t" by (simp add: lowest_id_row_def)
  ultimately show ?thesis using Some by (auto simp: holds_lowest_id_def list_ex_iff)
qed

lemma new_indicator_no_none: "\<not> has_none (new_indicator E s t u v)"
  by (simp add: has_none_def new_indicator_def)

lemma create_indicator_cases:
  obtains
    (no_type) "filter_by_value (t_indicator_type s) (cb_type d) = None"
      "create_indicator E s d = (error_response 404 ''Indicator type not found'', s)"
  | (no_user) t where "filter_by_value (t_indicator_type s) (cb_type d) = Some t"
      "find_user s (cb_username d) = None"
      "create_indicator E s d =
         (error_response 404 (''User username not found: '' @ cb_username d), s)"
  | (inactive) t u where "filter_by_value (t_indicator_type s) (cb_type d) = Some t"
      "find_user s (cb_username d) = Some u" "\<not> active u"
      "create_indicator E s d =
         (error_response 401 ''Cannot create an indicator with an inactive user'', s)"
  | (duplicate) t u e where "filter_by_value (t_indicator_type s) (cb_type d) = Some t"
      "find_user s (cb_username d) = Some u" "active u"
      "find (\<lambda>i. type_id i = tax_id t \<and> ivalue i = cb_value d) (t_indicator s) = Some e"
      "create_indicator E s d = (error_response 409 ''Indicator already exists'', s)"
  | (rejected) t u r where "filter_by_value (t_indicator_type s) (cb_type d) = Some t"
      "find_user s (cb_username d) = Some u" "active u"
      "find (\<lambda>i. type_id i = tax_id t \<and> ivalue i = cb_value d) (t_indicator s) = None"
      "create_fields E s d (new_indicator E s t u (cb_value d)) = Inl r"
      "create_indicator E s d = (r, s)"
  | (created) t u ind where "filter_by_value (t_indicator_type s) (cb_type d) = Some t"
      "find_user s (cb_username d) = Some u" "active u"
      "find (\<lambda>i. type_id i = tax_id t \<and> ivalue i = cb_value d) (t_indicator s) = None"
      "create_fields E s d (new_indicator E s t u (cb_value d)) = Inr ind"
      "create_indicator E s d = (IndicatorJson 201 ind, s\<lparr>t_indicator := t_indicator s @ [ind]\<rparr>)"
proof (cases "filter_by_value (t_indicator_type s) (cb_type d)")
  case None
  then show ?thesis using no_type by (simp add: create_indicator_def)
next
  case t: (Some t)
  show ?thesis
  proof (cases "find_user s (cb_username d)")
    case None
    with t show ?thesis using no_user by (simp add: create_indicator_def)
  next
    case u: (Some u)
    show ?thesis
    proof (cases "active u")
      case False
      with t u show ?thesis using inactive by (simp add: create_indicator_def)
    next
      case a: True
      show ?thesis
      proof (cases "find (\<lambda>i. type_id i = tax_id t \<and> ivalue i = cb_value d) (t_indicator s)")
        case (Some e)
        with t u a show ?thesis using duplicate by (simp add: create_indicator_def)
      next
        case n: None
        show ?thesis
        proof (cases "create_fields E s d (new_indicator E s t u (cb_value d))")
          case (Inl r)
          with t u a n show ?thesis using rejected by (simp add: create_indicator_def)
        next
          case (Inr ind)
          with t u a n show ?thesis using created by (simp add: create_indicator_def)
        qed
      qed
    qed
  qed
qed

lemma duplicate_indicator_iff:
  "filter_by_value (t_indicator_type s) (cb_type d) = Some t \<Longrightarrow>
   duplicate_indicator s d \<longleftrightarrow>
     find (\<lambda>i. type_id i = tax_id t \<and> ivalue i = cb_value d) (t_indicator s) \<noteq> None"
  by (auto simp: duplicate_indicator_def list_ex_iff find_None_iff)

text \<open>
  C3. When a \<^verbatim>\<open>POST /indicators\<close> succeeds, exactly one row is added, and for each of
  confidence, impact and status that the body omits, the new indicator holds the id of a
  row of that taxonomy table with the lowest id. (The column is NULL only if the table has
  no row at all, which is what the query for the default then returns.)
\<close>

theorem create_indicator_default_rows:
  assumes "create_indicator E s d = (r, s')" and "status_code r = 201"
  shows "\<exists>ind. r = IndicatorJson 201 ind \<and> t_indicator s' = t_indicator s @ [ind] \<and>
     (cb_confidence d = None \<longrightarrow> holds_lowest_id (t_indicator_confidence s) (confidence_id ind)) \<and>
     (cb_impact d = None \<longrightarrow> holds_lowest_id (t_indicator_impact s) (impact_id ind)) \<and>
     (cb_status d = None \<longrightarrow> holds_lowest_id (t_indicator_status s) (status_id ind))"
proof (cases rule: create_indicator_cases [of s d E])
  case no_type
  with assms show ?thesis by (auto simp: error_response_def)
next
  case (no_user t)
  with assms show ?thesis by (auto simp: error_response_def)
next
  case (inactive t u)
  with assms show ?thesis by (auto simp: error_response_def)
next
  case (duplicate t u e)
  with assms show ?thesis by (auto simp: error_response_def)
next
  case (rejected t u r')
  from create_fields_Inl [OF rejected(5) new_indicator_no_none] rejected(6) assms
  show ?thesis by auto
next
  case (created t u ind)
  note f = create_fields_Inr [OF created(5)]
  from created(6) assms(1) have "r = IndicatorJson 201 ind" "t_indicator s' = t_indicator s @ [ind]"
    by auto
  with f show ?thesis
    by (auto simp: holds_lowest_id_first)
qed

lemma find_None_pairs:
  "find (\<lambda>i. type_id i = a \<and> ivalue i = b) xs = None \<Longrightarrow>
   (a, b) \<notin> set (map (\<lambda>i. (type_id i, ivalue i)) xs)"
  by (auto simp: find_None_iff)

text \<open>
  C4, as amended. A \<^verbatim>\<open>POST /indicators\<close> whose (type, value) pair is that of an
  indicator already in the store never adds a row. It is answered with 409 when the user
  it names exists and is active; the handler checks the user first, so an unknown user is
  answered with 404 and an inactive one with 401. Every \<^verbatim>\<open>POST\<close>, whatever its body,
  keeps the (type, value) pairs of the indicators unique.
\<close>

theorem create_indicator_duplicate:
  "(duplicate_indicator s d \<longrightarrow>
      create_indicator E s d =
        (case find_user s (cb_username d) of
           None \<Rightarrow> (error_response 404 (''User username not found: '' @ cb_username d), s)
         | Some u \<Rightarrow>
             if active u then (error_response 409 ''Indicator already exists'', s)
             else (error_response 401 ''Cannot create an indicator with an inactive user'', s))) \<and>
   (indicator_unique s \<longrightarrow> indicator_unique (snd (create_indicator E s d)))"
proof (cases rule: create_indicator_cases [of s d E])
  case no_type
  then show ?thesis by (simp add: duplicate_indicator_def)
next
  case (no_user t)
  then show ?thesis by simp
next
  case (inactive t u)
  then show ?thesis by simp
next
  case (duplicate t u e)
  then show ?thesis by simp
next
  case (rejected t u r)
  then show ?thesis by (simp add: duplicate_indicator_iff)
next
  case (created t u ind)
  from create_fields_Inr [OF created(5)]
  have "type_id ind = tax_id t" and "ivalue ind = cb_value d"
    by (simp_all add: new_indicator_def)
  with find_None_pairs [OF created(4)]
  have "indicator_unique s \<longrightarrow> indicator_unique (s\<lparr>t_indicator := t_indicator s @ [ind]\<rparr>)"
    by (simp add: indicator_unique_def)
  with created show ?thesis by (simp add: duplicate_indicator_iff)
qed

text \<open>
  C7. A \<^verbatim>\<open>POST /indicators\<close> is answered with 201, 404, 401 or 409. Any answer other
  than 201 leaves the store exactly as it was. A 404 means that a name in the body does
  not resolve, a 401 that the user is inactive, a 409 that the (type, value) pair exists;
  and a body with an unresolved name, an inactive user or an existing pair is never
  answered with 201.
\<close>

theorem create_indicator_atomic:
  "(let r = fst (create_indicator E s d); s' = snd (create_indicator E s d) in
      (status_code r = 201 \<or> status_code r = 404 \<or> status_code r = 401 \<or> status_code r = 409) \<and>
      (status_code r \<noteq> 201 \<longrightarrow> s' = s) \<and>
      (status_code r = 404 \<longrightarrow> unknown_name s d) \<and>
      (status_code r = 401 \<longrightarrow> inactive_user s d) \<and>
      (status_code r = 409 \<longrightarrow> duplicate_indicator s d) \<and>
      (unknown_name s d \<or> inactive_user s d \<or> duplicate_indicator s d \<longrightarrow> status_code r \<noteq> 201))"
proof (cases rule: create_indicator_cases [of s d E])
  case no_type
  then show ?thesis by (simp add: error_response_def unknown_name_def)
next
  case (no_user t)
  then show ?thesis by (simp add: error_response_def unknown_name_def)
next
  case (inactive t u)
  then show ?thesis by (simp add: error_response_def inactive_user_def)
next
  case (duplicate t u e)
  then show ?thesis by (simp add: error_response_def duplicate_indicator_iff)
next
  case (rejected t u r)
  from create_fields_Inl [OF rejected(5) new_indicator_no_none]
  have "status_code r = 404" and "unknown_name s d"
    by (simp_all add: unknown_name_def)
  with rejected(6) show ?thesis by simp
next
  case (created t u ind)
  from create_fields_Inr [OF created(5)] have "\<not> unknown_later s d" by simp
  with created(1,2) have "\<not> unknown_name s d" by (simp add: unknown_name_def)
  moreover from created(2,3) have "\<not> inactive_user s d" by (simp add: inactive_user_def)
  moreover from created(1,4) have "\<not> duplicate_indicator s d" by (simp add: duplicate_indicator_iff)
  ultimately show ?thesis using created(6) by simp
qed

subsection \<open>On the small store\<close>

text \<open>A body with the required keys only is created with the defaults; the confidence
  with the lowest id is the second row of its table.\<close>

theorem create_indicator_default_rows_witness:
  "status_code (fst (create_indicator example_env example_store example_create)) = 201 \<and>
   cb_confidence example_create = None \<and> cb_impact example_create = None \<and>
   cb_status example_create = None \<and>
   (\<exists>ind. fst (create_indicator example_env example_store example_create) = IndicatorJson 201 ind \<and>
      t_indicator (snd (create_indicator example_env example_store example_create)) =
        t_indicator example_store @ [ind] \<and>
      holds_lowest_id (t_indicator_confidence example_store) (confidence_id ind) \<and>
      holds_lowest_id (t_indicator_impact example_store) (impact_id ind) \<and>
      holds_lowest_id (t_indicator_status example_store) (status_id ind) \<and>
      confidence_id ind = Some 1)"
proof -
  have h: "status_code (fst (create_indicator example_env example_store example_create)) = 201"
    by code_simp
  have c: "cb_confidence example_create = None" "cb_impact example_create = None"
    "cb_status example_create = None"
    by (simp_all add: example_create_def)
  have l: "confidence_id (last (t_indicator (snd (create_indicator example_env example_store
             example_create)))) = Some 1"
    by code_simp
  from create_indicator_default_rows [OF prod.collapse [symmetric] h] c
  obtain ind where i:
    "fst (create_indicator example_env example_store example_create) = IndicatorJson 201 ind"
    "t_indicator (snd (create_indicator example_env example_store example_create)) =
        t_indicator example_store @ [ind]"
    "holds_lowest_id (t_indicator_confidence example_store) (confidence_id ind)"
    "holds_lowest_id (t_indicator_impact example_store) (impact_id ind)"
    "holds_lowest_id (t_indicator_status example_store) (status_id ind)"
    by auto
  from l i(2) have "confidence_id ind = Some 1" by simp
  with h c i show ?thesis by blast
qed

text \<open>Posting the first indicator again, as the active user, is a conflict; posting a
  new value keeps the pairs unique.\<close>

theorem create_indicator_duplicate_witness:
  "duplicate_indicator example_store (example_create\<lparr>cb_value := ''127.0.0.1''\<rparr>) \<and>
   indicator_unique example_store \<and>
   create_indicator example_env example_store (example_create\<lparr>cb_value := ''127.0.0.1''\<rparr>) =
     (error_response 409 ''Indicator already exists'', example_store) \<and>
   indicator_unique (snd (create_indicator example_env example_store example_create)) \<and>
   length (t_indicator (snd (create_indicator example_env example_store example_create))) = 3"
proof -
  have d: "duplicate_indicator example_store (example_create\<lparr>cb_value := ''127.0.0.1''\<rparr>)"
    by code_simp
  have u: "indicator_unique example_store"
    by code_simp
  have f: "find_user example_store (cb_username (example_create\<lparr>cb_value := ''127.0.0.1''\<rparr>)) =
             Some \<lparr>uid = 1, username = ''analyst'', active = True\<rparr>"
    by (simp add: find_user_def example_store_def example_create_def)
  have n: "length (t_indicator (snd (create_indicator example_env example_store example_create))) = 3"
    by code_simp
  from create_indicator_duplicate
         [of example_store "example_create\<lparr>cb_value := ''127.0.0.1''\<rparr>" example_env] d f
  have "create_indicator example_env example_store (example_create\<lparr>cb_value := ''127.0.0.1''\<rparr>) =
     (error_response 409 ''Indicator already exists'', example_store)"
    by simp
  moreover from create_indicator_duplicate [of example_store example_create example_env] u
  have "indicator_unique (snd (create_indicator example_env example_store example_create))"
    by simp
  ultimately show ?thesis using d u n by simp
qed

text \<open>C4 as stated fails: posting the first indicator again as the inactive user is
  answered with 401, not 409.\<close>

theorem create_indicator_duplicate_inactive_counterexample:
  "duplicate_indicator example_store
     (example_create\<lparr>cb_username := ''retired'', cb_value := ''127.0.0.1''\<rparr>) \<and>
   status_code (fst (create_indicator example_env example_store
     (example_create\<lparr>cb_username := ''retired'', cb_value := ''127.0.0.1''\<rparr>))) = 401"
  by code_simp

text \<open>An unknown tag, an inactive user and an existing pair: 404, 401 and 409, and the
  store as before.\<close>

theorem create_indicator_atomic_witness:
  "unknown_name example_store (example_create\<lparr>cb_tags := Some [''nope'']\<rparr>) \<and>
   status_code (fst (create_indicator example_env example_store
     (example_create\<lparr>cb_tags := Some [''nope'']\<rparr>))) = 404 \<and>
   snd (create_indicator example_env example_store
     (example_create\<lparr>cb_tags := Some [''nope'']\<rparr>)) = example_store \<and>
   inactive_user example_store (example_create\<lparr>cb_username := ''retired''\<rparr>) \<and>
   status_code (fst (create_indicator example_env example_store
     (example_create\<lparr>cb_username := ''retired''\<rparr>))) = 401 \<and>
   snd (create_indicator example_env example_store
     (example_create\<lparr>cb_username := ''retired''\<rparr>)) = example_store \<and>
   duplicate_indicator example_store (example_create\<lparr>cb_value := ''127.0.0.1''\<rparr>) \<and>
   status_code (fst (create_indicator example_env example_store
     (example_create\<lparr>cb_value := ''127.0.0.1''\<rparr>))) = 409 \<and>
   snd (create_indicator example_env example_store
     (example_create\<lparr>cb_value := ''127.0.0.1''\<rparr>)) = example_store"
proof -
  have c: "status_code (fst (create_indicator example_env example_store
     (example_create\<lparr>cb_tags := Some [''nope'']\<rparr>))) = 404"
    "status_code (fst (create_indicator example_env example_store
     (example_create\<lparr>cb_username := ''retired''\<rparr>))) = 401"
    "status_code (fst (create_indicator example_env example_store
     (example_create\<lparr>cb_value := ''127.0.0.1''\<rparr>))) = 409"
    by code_simp+
  note a1 = create_indicator_atomic
    [of example_env example_store "example_create\<lparr>cb_tags := Some [''nope'']\<rparr>"]
  note a2 = create_indicator_atomic
    [of example_env example_store "example_create\<lparr>cb_username := ''retired''\<rparr>"]
  note a3 = create_indicator_atomic
    [of example_env example_store "example_create\<lparr>cb_value := ''127.0.0.1''\<rparr>"]
  from a1 c(1) have
    "unknown_name example_store (example_create\<lparr>cb_tags := Some [''nope'']\<rparr>) \<and>
     snd (create_indicator example_env example_store
       (example_create\<lparr>cb_tags := Some [''nope'']\<rparr>)) = example_store"
    by (simp add: Let_def)
  moreover from a2 c(2) have
    "inactive_user example_store (example_create\<lparr>cb_username := ''retired''\<rparr>) \<and>
     snd (create_indicator example_env example_store
       (example_create\<lparr>cb_username := ''retired''\<rparr>)) = example_store"
    by (simp add: Let_def)
  moreover from a3 c(3) have
    "duplicate_indicator example_store (example_create\<lparr>cb_value := ''127.0.0.1''\<rparr>) \<and>
     snd (create_indicator example_env example_store
       (example_create\<lparr>cb_value := ''127.0.0.1''\<rparr>)) = example_store"
    by (simp add: Let_def)
  ultimately show ?thesis using c by simp
qed

section \<open>Updating an indicator\<close>

lemma untouched_refl: "untouched d ind ind"
  by (simp add: untouched_def)

lemma untouched_trans: "untouched d a b \<Longrightarrow> untouched d b c \<Longrightarrow> untouched d a c"
  by (simp add: untouched_def)

lemma update_steps_untouched:
  "update_campaigns s d ind = Inr ind' \<Longrightarrow> untouched d ind ind'"
  "update_case_sensitive E d ind = Inr ind' \<Longrightarrow> untouched d ind ind'"
  "update_confidence s d ind = Inr ind' \<Longrightarrow> untouched d ind ind'"
  "update_impact s d ind = Inr ind' \<Longrightarrow> untouched d ind ind'"
  "update_references s d ind = Inr ind' \<Longrightarrow> untouched d ind ind'"
  "update_status s d ind = Inr ind' \<Longrightarrow> untouched d ind ind'"
  "update_substring E d ind = Inr ind' \<Longrightarrow> untouched d ind ind'"
  "update_tags s d ind = Inr ind' \<Longrightarrow> untouched d ind ind'"
  "update_username s d ind = Inr ind' \<Longrightarrow> untouched d ind ind'"
proof -
  show "update_campaigns s d ind = Inr ind' \<Longrightarrow> untouched d ind ind'"
    by (cases "ub_campaigns d")
      (auto simp: update_campaigns_def untouched_def Let_def split: if_splits)
  show "update_case_sensitive E d ind = Inr ind' \<Longrightarrow> untouched d ind ind'"
    by (cases "ub_case_sensitive d") (auto simp: update_case_sensitive_def untouched_def)
  show "update_confidence s d ind = Inr ind' \<Longrightarrow> untouched d ind ind'"
    by (cases "ub_confidence d")
      (auto simp: update_confidence_def untouched_def and_then_Inr flush_Inr split: option.splits)
  show "update_impact s d ind = Inr ind' \<Longrightarrow> untouched d ind ind'"
    by (cases "ub_impact d")
      (auto simp: update_impact_def untouched_def and_then_Inr flush_Inr split: option.splits)
  show "update_references s d ind = Inr ind' \<Longrightarrow> untouched d ind ind'"
    by (cases "ub_references d")
      (auto simp: update_references_def untouched_def and_then_Inr flush_Inr Let_def
            split: if_splits)
  show "update_status s d ind = Inr ind' \<Longrightarrow> untouched d ind ind'"
    by (cases "ub_status d")
      (auto simp: update_status_def untouched_def and_then_Inr flush_Inr split: option.splits)
  show "update_substring E d ind = Inr ind' \<Longrightarrow> untouched d ind ind'"
    by (cases "ub_substring d") (auto simp: update_substring_def untouched_def)
  show "update_tags s d ind = Inr ind' \<Longrightarrow> untouched d ind ind'"
    by (cases "ub_tags d")
      (auto simp: update_tags_def untouched_def and_then_Inr flush_Inr Let_def split: if_splits)
  show "update_username s d ind = Inr ind' \<Longrightarrow> untouched d ind ind'"
    by (cases "ub_username d")
      (auto simp: update_username_def untouched_def and_then_Inr flush_Inr
            split: option.splits if_splits)
qed

lemma update_fields_untouched:
  assumes "update_fields E s d ind = Inr ind'"
  shows "untouched d ind ind'"
proof -
  from assms obtain i1 i2 i3 i4 i5 i6 i7 i8 where
    s: "update_campaigns s d ind = Inr i1" "update_case_sensitive E d i1 = Inr i2"
       "update_confidence s d i2 = Inr i3" "update_impact s d i3 = Inr i4"
       "update_references s d i4 = Inr i5" "update_status s d i5 = Inr i6"
       "update_substring E d i6 = Inr i7" "update_tags s d i7 = Inr i8"
       "update_username s d i8 = Inr ind'"
    unfolding update_fields_def and_then_Inr flush_Inr by blast
  have u1: "untouched d ind i1" using s(1) by (rule update_steps_untouched)
  have u2: "untouched d ind i2"
    by (rule untouched_trans [OF u1 update_steps_untouched(2) [OF s(2)]])
  have u3: "untouched d ind i3"
    by (rule untouched_trans [OF u2 update_steps_untouched(3) [OF s(3)]])
  have u4: "untouched d ind i4"
    by (rule untouched_trans [OF u3 update_steps_untouched(4) [OF s(4)]])
  have u5: "untouched d ind i5"
    by (rule untouched_trans [OF u4 update_steps_untouched(5) [OF s(5)]])
  have u6: "untouched d ind i6"
    by (rule untouched_trans [OF u5 update_steps_untouched(6) [OF s(6)]])
  have u7: "untouched d ind i7"
    by (rule untouched_trans [OF u6 update_steps_untouched(7) [OF s(7)]])
  have u8: "untouched d ind i8"
    by (rule untouched_trans [OF u7 update_steps_untouched(8) [OF s(8)]])
  show ?thesis
    by (rule untouched_trans [OF u8 update_steps_untouched(9) [OF s(9)]])
qed

lemma get_indicator_replace:
  assumes "iid x = i"
  shows "get_indicator (map (\<lambda>r. if iid r = i then x else r) xs) j =
           (if j = i then (if get_indicator xs i = None then None else Some x)
            else get_indicator xs j)"
  using assms by (induction xs) (auto simp: get_indicator_def)

text \<open>
  C2. After a \<^verbatim>\<open>PUT\<close> on an existing indicator, whatever the answer, the indicator is
  still there, and its id, type, value and timestamps and every field whose key is absent
  from the body are what they were; every other indicator and every other table is
  unchanged.
\<close>

theorem update_indicator_frame:
  assumes "get_indicator (t_indicator s) i = Some ind"
  shows "\<exists>ind'. get_indicator (t_indicator (snd (update_indicator E s i d))) i = Some ind' \<and>
           untouched d ind ind' \<and>
           (\<forall>j. j \<noteq> i \<longrightarrow>
              get_indicator (t_indicator (snd (update_indicator E s i d))) j =
                get_indicator (t_indicator s) j) \<and>
           snd (update_indicator E s i d) =
             s\<lparr>t_indicator := t_indicator (snd (update_indicator E s i d))\<rparr>"
proof (cases "update_fields E s d ind")
  case (Inl r)
  with assms have "snd (update_indicator E s i d) = s"
    by (simp add: update_indicator_def)
  with assms show ?thesis by (simp add: untouched_refl)
next
  case (Inr ind')
  then have u: "untouched d ind ind'" by (rule update_fields_untouched)
  from assms have "iid ind = i"
    unfolding get_indicator_def by (auto dest: find_holds)
  with u have id: "iid ind' = i" by (simp add: untouched_def)
  from Inr assms have "snd (update_indicator E s i d) =
      s\<lparr>t_indicator := map (\<lambda>r. if iid r = i then ind' else r) (t_indicator s)\<rparr>"
    by (simp add: update_indicator_def)
  with u assms show ?thesis
    by (simp add: get_indicator_replace [OF id])
qed

text \<open>Setting only the status of the first indicator of the small store.\<close>

theorem update_indicator_frame_witness:
  "get_indicator (t_indicator example_store) 1 = Some example_indicator \<and>
   get_indicator (t_indicator (snd (update_indicator example_env example_store 1
      (example_update\<lparr>ub_status := Some ''OLD''\<rparr>)))) 1 =
     Some (example_indicator\<lparr>status_id := Some 2\<rparr>) \<and>
   (\<exists>ind'. get_indicator (t_indicator (snd (update_indicator example_env example_store 1
               (example_update\<lparr>ub_status := Some ''OLD''\<rparr>)))) 1 = Some ind' \<and>
      untouched (example_update\<lparr>ub_status := Some ''OLD''\<rparr>) example_indicator ind' \<and>
      get_indicator (t_indicator (snd (update_indicator example_env example_store 1
               (example_update\<lparr>ub_status := Some ''OLD''\<rparr>)))) 2 =
        get_indicator (t_indicator example_store) 2)"
proof -
  have g: "get_indicator (t_indicator example_store) 1 = Some example_indicator"
    by (simp add: get_indicator_def example_store_def example_indicator_def)
  have v: "get_indicator (t_indicator (snd (update_indicator example_env example_store 1
      (example_update\<lparr>ub_status := Some ''OLD''\<rparr>)))) 1 =
     Some (example_indicator\<lparr>status_id := Some 2\<rparr>)"
    by code_simp
  from update_indicator_frame [OF g, of example_env "example_update\<lparr>ub_status := Some ''OLD''\<rparr>"]
  obtain ind' where
    "get_indicator (t_indicator (snd (update_indicator example_env example_store 1
               (example_update\<lparr>ub_status := Some ''OLD''\<rparr>)))) 1 = Some ind'"
    "untouched (example_update\<lparr>ub_status := Some ''OLD''\<rparr>) example_indicator ind'"
    "\<forall>j. j \<noteq> 1 \<longrightarrow> get_indicator (t_indicator (snd (update_indicator example_env example_store 1
               (example_update\<lparr>ub_status := Some ''OLD''\<rparr>)))) j =
        get_indicator (t_indicator example_store) j"
    by blast
  then show ?thesis using g v by auto
qed

text \<open>
  C1 does not hold of the code. On the small store, a \<^verbatim>\<open>PUT\<close> on the first indicator
  whose body names a campaign that does not exist is not answered with 404: the campaigns
  block assigns the list holding \<^verbatim>\<open>None\<close> to the indicator and goes on to the commit.
  The same happens for an unknown reference and for an unknown tag.
\<close>

theorem update_indicator_unknown_collection_name:
  "find_campaign example_store ''nope'' = None \<and>
   update_campaigns example_store (example_update\<lparr>ub_campaigns := Some [''nope'']\<rparr>)
     example_indicator = Inr (example_indicator\<lparr>campaigns := [None]\<rparr>) \<and>
   status_code (fst (update_indicator example_env example_store 1
     (example_update\<lparr>ub_campaigns := Some [''nope'']\<rparr>))) \<noteq> 404 \<and>
   find_reference example_store ''nope'' = None \<and>
   status_code (fst (update_indicator example_env example_store 1
     (example_update\<lparr>ub_references := Some [''nope'']\<rparr>))) \<noteq> 404 \<and>
   filter_by_value (t_tag example_store) ''nope'' = None \<and>
   status_code (fst (update_indicator example_env example_store 1
     (example_update\<lparr>ub_tags := Some [''nope'']\<rparr>))) \<noteq> 404"
  by code_simp

section \<open>Reading indicators\<close>

lemma query_filter_none:
  assumes "f \<in> set fs" and "\<forall>i \<in> set rows. \<not> f i"
  shows "query_filter fs rows = []"
  using assms by (auto simp: query_filter_def filter_empty_conv list_all_iff)

lemma to_collection_dict_empty: "to_collection_dict [] p n = \<lparr>items = [], total = 0\<rparr>"
  by (simp add: to_collection_dict_def)

lemma read_indicators_none:
  assumes "f \<in> set (filters E s a)" and "\<forall>i \<in> set (t_indicator s). \<not> f i"
  shows "read_indicators E s a = CollectionJson 200 \<lparr>items = [], total = 0\<rparr>"
  using query_filter_none [OF assms]
  by (simp add: read_indicators_def to_collection_dict_empty)

lemma fk_positive_not_minus_one: "fk_positive x \<Longrightarrow> x \<noteq> Some (- 1)"
  by (auto simp: fk_positive_def)

lemma unresolved_filters:
  "unresolved (t_indicator_confidence s) (qa_confidence a) \<Longrightarrow>
     confidence_filter s a = [\<lambda>i. confidence_id i = Some (- 1)]"
  "unresolved (t_indicator_impact s) (qa_impact a) \<Longrightarrow>
     impact_filter s a = [\<lambda>i. impact_id i = Some (- 1)]"
  "unresolved (t_indicator_status s) (qa_status a) \<Longrightarrow>
     status_filter s a = [\<lambda>i. status_id i = Some (- 1)]"
  "unresolved (t_indicator_type s) (qa_type a) \<Longrightarrow>
     type_filter s a = [\<lambda>i. type_id i = - 1]"
  "unresolved_source s (qa_sources a) \<Longrightarrow>
     references_any_source s (- 1) \<in> set (sources_filter s a)"
  by (auto simp: unresolved_def unresolved_source_def confidence_filter_def impact_filter_def
        status_filter_def type_filter_def sources_filter_def list_ex_iff image_iff
        split: option.splits intro!: bexI)

text \<open>
  C6. In a store whose ids are positive, a \<^verbatim>\<open>GET /indicators\<close> whose confidence,
  impact, status or type parameter, or one of whose sources, names no row is answered with
  200 and an empty collection: the handler puts the id \<open>-1\<close> into the filter, and no
  row has it.
\<close>

theorem read_indicators_unresolved_name:
  assumes "ids_positive s"
    and "unresolved (t_indicator_confidence s) (qa_confidence a) \<or>
         unresolved (t_indicator_impact s) (qa_impact a) \<or>
         unresolved (t_indicator_status s) (qa_status a) \<or>
         unresolved (t_indicator_type s) (qa_type a) \<or>
         unresolved_source s (qa_sources a)"
  shows "read_indicators E s a = CollectionJson 200 \<lparr>items = [], total = 0\<rparr> \<and>
     (unresolved (t_indicator_confidence s) (qa_confidence a) \<longrightarrow>
        confidence_filter s a = [\<lambda>i. confidence_id i = Some (- 1)]) \<and>
     (unresolved (t_indicator_impact s) (qa_impact a) \<longrightarrow>
        impact_filter s a = [\<lambda>i. impact_id i = Some (- 1)]) \<and>
     (unresolved (t_indicator_status s) (qa_status a) \<longrightarrow>
        status_filter s a = [\<lambda>i. status_id i = Some (- 1)]) \<and>
     (unresolved (t_indicator_type s) (qa_type a) \<longrightarrow>
        type_filter s a = [\<lambda>i. type_id i = - 1]) \<and>
     (unresolved_source s (qa_sources a) \<longrightarrow>
        references_any_source s (- 1) \<in> set (sources_filter s a))"
proof -
  from assms(1) have pos:
    "\<forall>i \<in> set (t_indicator s). 0 < type_id i \<and> fk_positive (confidence_id i) \<and>
        fk_positive (impact_id i) \<and> fk_positive (status_id i)"
    "\<forall>r \<in> set (t_intel_reference s). 0 < intel_source_id r"
    by (simp_all add: ids_positive_def list_all_iff)
  have empty: "read_indicators E s a = CollectionJson 200 \<lparr>items = [], total = 0\<rparr>"
    using assms(2)
  proof (elim disjE)
    assume u: "unresolved (t_indicator_confidence s) (qa_confidence a)"
    have "(\<lambda>i. confidence_id i = Some (- 1)) \<in> set (filters E s a)"
      by (simp add: filters_def unresolved_filters(1) [OF u])
    moreover have "\<forall>i \<in> set (t_indicator s). \<not> confidence_id i = Some (- 1)"
      using pos(1) fk_positive_not_minus_one by blast
    ultimately show ?thesis by (rule read_indicators_none)
  next
    assume u: "unresolved (t_indicator_impact s) (qa_impact a)"
    have "(\<lambda>i. impact_id i = Some (- 1)) \<in> set (filters E s a)"
      by (simp add: filters_def unresolved_filters(2) [OF u])
    moreover have "\<forall>i \<in> set (t_indicator s). \<not> impact_id i = Some (- 1)"
      using pos(1) fk_positive_not_minus_one by blast
    ultimately show ?thesis by (rule read_indicators_none)
  next
    assume u: "unresolved (t_indicator_status s) (qa_status a)"
    have "(\<lambda>i. status_id i = Some (- 1)) \<in> set (filters E s a)"
      by (simp add: filters_def unresolved_filters(3) [OF u])
    moreover have "\<forall>i \<in> set (t_indicator s). \<not> status_id i = Some (- 1)"
      using pos(1) fk_positive_not_minus_one by blast
    ultimately show ?thesis by (rule read_indicators_none)
  next
    assume u: "unresolved (t_indicator_type s) (qa_type a)"
    have "(\<lambda>i. type_id i = - 1) \<in> set (filters E s a)"
      by (simp add: filters_def unresolved_filters(4) [OF u])
    moreover have "\<forall>i \<in> set (t_indicator s). \<not> type_id i = - 1"
      using pos(1) by force
    ultimately show ?thesis by (rule read_indicators_none)
  next
    assume u: "unresolved_source s (qa_sources a)"
    have "references_any_source s (- 1) \<in> set (filters E s a)"
      using unresolved_filters(5) [OF u] by (simp add: filters_def)
    moreover have "\<forall>i \<in> set (t_indicator s). \<not> references_any_source s (- 1) i"
      using pos(2) by (force simp: references_any_source_def list_ex_iff)
    ultimately show ?thesis by (rule read_indicators_none)
  qed
  with unresolved_filters [of s a] show ?thesis by blast
qed

lemma unparseable_filters:
  "unparseable E True (qa_created_after a) \<Longrightarrow>
     created_after_filter E a = [\<lambda>i. date_max < created_time i]"
  "unparseable E True (qa_created_before a) \<Longrightarrow>
     created_before_filter E a = [\<lambda>i. created_time i < date_min]"
  "unparseable E False (qa_modified_after a) \<Longrightarrow>
     modified_after_filter E a = [\<lambda>i. date_max < modified_time i]"
  "unparseable E False (qa_modified_before a) \<Longrightarrow>
     modified_before_filter E a = [\<lambda>i. modified_time i < date_min]"
  by (auto simp: unparseable_def created_after_filter_def created_before_filter_def
        modified_after_filter_def modified_before_filter_def split: option.splits)

text \<open>
  C10. In a store whose timestamps are in range, a \<^verbatim>\<open>GET /indicators\<close> one of whose four
  date parameters the parser rejects is answered with 200 and an empty collection: the
  handler takes \<^verbatim>\<open>date.max\<close> as the bound of an ``after'' filter and \<^verbatim>\<open>date.min\<close> as
  the bound of a ``before'' filter, and no row lies beyond them.
\<close>

theorem read_indicators_unparseable_date:
  assumes "times_in_range s"
    and "unparseable E True (qa_created_after a) \<or> unparseable E True (qa_created_before a) \<or>
         unparseable E False (qa_modified_after a) \<or> unparseable E False (qa_modified_before a)"
  shows "read_indicators E s a = CollectionJson 200 \<lparr>items = [], total = 0\<rparr> \<and>
     (unparseable E True (qa_created_after a) \<longrightarrow>
        created_after_filter E a = [\<lambda>i. date_max < created_time i]) \<and>
     (unparseable E True (qa_created_before a) \<longrightarrow>
        created_before_filter E a = [\<lambda>i. created_time i < date_min]) \<and>
     (unparseable E False (qa_modified_after a) \<longrightarrow>
        modified_after_filter E a = [\<lambda>i. date_max < modified_time i]) \<and>
     (unparseable E False (qa_modified_before a) \<longrightarrow>
        modified_before_filter E a = [\<lambda>i. modified_time i < date_min])"
proof -
  from assms(1) have rng:
    "\<forall>i \<in> set (t_indicator s). date_min \<le> created_time i \<and> created_time i \<le> date_max \<and>
        date_min \<le> modified_time i \<and> modified_time i \<le> date_max"
    by (simp add: times_in_range_def list_all_iff)
  have empty: "read_indicators E s a = CollectionJson 200 \<lparr>items = [], total = 0\<rparr>"
    using assms(2)
  proof (elim disjE)
    assume u: "unparseable E True (qa_created_after a)"
    have "(\<lambda>i. date_max < created_time i) \<in> set (filters E s a)"
      by (simp add: filters_def unparseable_filters(1) [OF u])
    moreover have "\<forall>i \<in> set (t_indicator s). \<not> date_max < created_time i"
      using rng by force
    ultimately show ?thesis by (rule read_indicators_none)
  next
    assume u: "unparseable E True (qa_created_before a)"
    have "(\<lambda>i. created_time i < date_min) \<in> set (filters E s a)"
      by (simp add: filters_def unparseable_filters(2) [OF u])
    moreover have "\<forall>i \<in> set (t_indicator s). \<not> created_time i < date_min"
      using rng by force
    ultimately show ?thesis by (rule read_indicators_none)
  next
    assume u: "unparseable E False (qa_modified_after a)"
    have "(\<lambda>i. date_max < modified_time i) \<in> set (filters E s a)"
      by (simp add: filters_def unparseable_filters(3) [OF u])
    moreover have "\<forall>i \<in> set (t_indicator s). \<not> date_max < modified_time i"
      using rng by force
    ultimately show ?thesis by (rule read_indicators_none)
  next
    assume u: "unparseable E False (qa_modified_before a)"
    have "(\<lambda>i. modified_time i < date_min) \<in> set (filters E s a)"
      by (simp add: filters_def unparseable_filters(4) [OF u])
    moreover have "\<forall>i \<in> set (t_indicator s). \<not> modified_time i < date_min"
      using rng by force
    ultimately show ?thesis by (rule read_indicators_none)
  qed
  with unparseable_filters [of E a] show ?thesis by blast
qed

text \<open>On the small store every row is listed without a filter; naming a confidence, an
  impact, a status, a type and sources that do not exist lists none, and so does naming a
  type that does not exist alone.\<close>

theorem read_indicators_unresolved_name_witness:
  "ids_positive example_store \<and>
   unresolved (t_indicator_confidence example_store) (qa_confidence
     (example_args\<lparr>qa_confidence := Some ''BOGUS'', qa_impact := Some ''BOGUS'',
        qa_sources := Some ''osint,rumour'', qa_status := Some ''BOGUS'',
        qa_type := Some ''BOGUS''\<rparr>)) \<and>
   unresolved_source example_store (Some ''osint,rumour'') \<and>
   length (items (to_collection_dict (t_indicator example_store) 1 10)) = 2 \<and>
   read_indicators example_env example_store
     (example_args\<lparr>qa_confidence := Some ''BOGUS'', qa_impact := Some ''BOGUS'',
        qa_sources := Some ''osint,rumour'', qa_status := Some ''BOGUS'',
        qa_type := Some ''BOGUS''\<rparr>) = CollectionJson 200 \<lparr>items = [], total = 0\<rparr> \<and>
   read_indicators example_env example_store (example_args\<lparr>qa_type := Some ''BOGUS''\<rparr>) =
     CollectionJson 200 \<lparr>items = [], total = 0\<rparr>"
proof -
  have p: "ids_positive example_store"
    by code_simp
  have u: "unresolved (t_indicator_confidence example_store) (qa_confidence
     (example_args\<lparr>qa_confidence := Some ''BOGUS'', qa_impact := Some ''BOGUS'',
        qa_sources := Some ''osint,rumour'', qa_status := Some ''BOGUS'',
        qa_type := Some ''BOGUS''\<rparr>))"
    by code_simp
  have v: "unresolved (t_indicator_type example_store)
     (qa_type (example_args\<lparr>qa_type := Some ''BOGUS''\<rparr>))"
    by code_simp
  have w: "unresolved_source example_store (Some ''osint,rumour'')"
    by code_simp
  have n: "length (items (to_collection_dict (t_indicator example_store) 1 10)) = 2"
    by code_simp
  from read_indicators_unresolved_name [OF p, of
      "example_args\<lparr>qa_confidence := Some ''BOGUS'', qa_impact := Some ''BOGUS'',
        qa_sources := Some ''osint,rumour'', qa_status := Some ''BOGUS'',
        qa_type := Some ''BOGUS''\<rparr>" example_env] u
  have a: "read_indicators example_env example_store
     (example_args\<lparr>qa_confidence := Some ''BOGUS'', qa_impact := Some ''BOGUS'',
        qa_sources := Some ''osint,rumour'', qa_status := Some ''BOGUS'',
        qa_type := Some ''BOGUS''\<rparr>) = CollectionJson 200 \<lparr>items = [], total = 0\<rparr>"
    by blast
  from read_indicators_unresolved_name [OF p, of
      "example_args\<lparr>qa_type := Some ''BOGUS''\<rparr>" example_env] v
  have b: "read_indicators example_env example_store (example_args\<lparr>qa_type := Some ''BOGUS''\<rparr>) =
     CollectionJson 200 \<lparr>items = [], total = 0\<rparr>"
    by blast
  from p u w n a b show ?thesis by blast
qed

text \<open>The parser of the example rejects \<open>soon\<close>; as a bound on the creation time or
  on the modification time, on either side, it lists no row.\<close>

theorem read_indicators_unparseable_date_witness:
  "times_in_range example_store \<and>
   unparseable example_env True (Some ''soon'') \<and> unparseable example_env False (Some ''soon'') \<and>
   read_indicators example_env example_store (example_args\<lparr>qa_created_after := Some ''soon''\<rparr>) =
     CollectionJson 200 \<lparr>items = [], total = 0\<rparr> \<and>
   read_indicators example_env example_store (example_args\<lparr>qa_created_before := Some ''soon''\<rparr>) =
     CollectionJson 200 \<lparr>items = [], total = 0\<rparr> \<and>
   read_indicators example_env example_store (example_args\<lparr>qa_modified_after := Some ''soon''\<rparr>) =
     CollectionJson 200 \<lparr>items = [], total = 0\<rparr> \<and>
   read_indicators example_env example_store (example_args\<lparr>qa_modified_before := Some ''soon''\<rparr>) =
     CollectionJson 200 \<lparr>items = [], total = 0\<rparr>"
proof -
  have t: "times_in_range example_store"
    by code_simp
  have u: "unparseable example_env True (Some ''soon'')" "unparseable example_env False (Some ''soon'')"
    by code_simp+
  have q: "qa_created_after (example_args\<lparr>qa_created_after := Some ''soon''\<rparr>) = Some ''soon''"
    "qa_created_before (example_args\<lparr>qa_created_before := Some ''soon''\<rparr>) = Some ''soon''"
    "qa_modified_after (example_args\<lparr>qa_modified_after := Some ''soon''\<rparr>) = Some ''soon''"
    "qa_modified_before (example_args\<lparr>qa_modified_before := Some ''soon''\<rparr>) = Some ''soon''"
    by simp_all
  from read_indicators_unparseable_date [OF t, of example_env
      "example_args\<lparr>qa_created_after := Some ''soon''\<rparr>"] u q(1)
  have a: "read_indicators example_env example_store
      (example_args\<lparr>qa_created_after := Some ''soon''\<rparr>) =
     CollectionJson 200 \<lparr>items = [], total = 0\<rparr>"
    by simp
  from read_indicators_unparseable_date [OF t, of example_env
      "example_args\<lparr>qa_created_before := Some ''soon''\<rparr>"] u q(2)
  have b: "read_indicators example_env example_store
      (example_args\<lparr>qa_created_before := Some ''soon''\<rparr>) =
     CollectionJson 200 \<lparr>items = [], total = 0\<rparr>"
    by simp
  from read_indicators_unparseable_date [OF t, of example_env
      "example_args\<lparr>qa_modified_after := Some ''soon''\<rparr>"] u q(3)
  have c: "read_indicators example_env example_store
      (example_args\<lparr>qa_modified_after := Some ''soon''\<rparr>) =
     CollectionJson 200 \<lparr>items = [], total = 0\<rparr>"
    by simp
  from read_indicators_unparseable_date [OF t, of example_env
      "example_args\<lparr>qa_modified_before := Some ''soon''\<rparr>"] u q(4)
  have d: "read_indicators example_env example_store
      (example_args\<lparr>qa_modified_before := Some ''soon''\<rparr>) =
     CollectionJson 200 \<lparr>items = [], total = 0\<rparr>"
    by simp
  from t u a b c d show ?thesis by blast
qed


end
